theory Spec2Isabelle
  imports Main "HOL-Library.Word" "HOL-Library.Product_Lexorder"
begin

section \<open>Python strings and paths used by the notebook\<close>

text \<open>
  The notebook \<^verbatim>\<open>paparazzi_point_to_polygon_with_sam.ipynb\<close> is embedded function by
  function. Strings are \<^typ>\<open>string\<close>; a \<^verbatim>\<open>pathlib.Path\<close> is the list of its
  components, outermost first.
\<close>

text \<open>\<^verbatim>\<open>s.split(sep)\<close> for a one-character separator: every occurrence splits, adjacent
  separators give empty tokens, and the result always has at least one token.\<close>

fun split_py :: "char \<Rightarrow> string \<Rightarrow> string list" where
  "split_py sep [] = [[]]"
| "split_py sep (c # cs) =
     (if c = sep then [] # split_py sep cs
      else (case split_py sep cs of
              [] \<Rightarrow> [[c]]
            | w # ws \<Rightarrow> (c # w) # ws))"

text \<open>\<^verbatim>\<open>sep.join(tokens)\<close>.\<close>

fun join_py :: "string \<Rightarrow> string list \<Rightarrow> string" where
  "join_py sep [] = []"
| "join_py sep [t] = t"
| "join_py sep (t # u # us) = t @ sep @ join_py sep (u # us)"

text \<open>\<^verbatim>\<open>name.rfind(c)\<close>: the index of the last occurrence, \<open>None\<close> for Python's \<open>-1\<close>.\<close>

fun rfind :: "char \<Rightarrow> string \<Rightarrow> nat option" where
  "rfind c [] = None"
| "rfind c (d # ds) =
     (case rfind c ds of
        Some i \<Rightarrow> Some (Suc i)
      | None \<Rightarrow> (if d = c then Some 0 else None))"

type_synonym path = "string list"

definition joinpath :: "path \<Rightarrow> string \<Rightarrow> path" where
  "joinpath p s = p @ [s]"

text \<open>\<^verbatim>\<open>Path.name\<close> on a path with at least one component (every path the notebook builds
  ends in a component it has just joined).\<close>

definition path_name :: "path \<Rightarrow> string" where
  "path_name p = (case rev p of [] \<Rightarrow> [] | n # _ \<Rightarrow> n)"

text \<open>\<^verbatim>\<open>Path.stem\<close> of Python 3.10: the name up to its last dot, unless that dot is the
  first or the last character.\<close>

definition str_stem :: "string \<Rightarrow> string" where
  "str_stem name =
     (case rfind CHR ''.'' name of
        None \<Rightarrow> name
      | Some i \<Rightarrow> (if 0 < i \<and> Suc i < length name then take i name else name))"

definition path_stem :: "path \<Rightarrow> string" where
  "path_stem p = str_stem (path_name p)"

subsection \<open>Decimal text of integers\<close>

definition digit_char :: "nat \<Rightarrow> char" where
  "digit_char d = ''0123456789'' ! (d mod 10)"

fun str_nat :: "nat \<Rightarrow> string" where
  "str_nat n = (if n < 10 then [digit_char n] else str_nat (n div 10) @ [digit_char (n mod 10)])"

declare str_nat.simps [simp del]

text \<open>\<^verbatim>\<open>str(i)\<close> for a Python int.\<close>

definition str_int :: "int \<Rightarrow> string" where
  "str_int i = (if i < 0 then CHR ''-'' # str_nat (nat (- i)) else str_nat (nat i))"

text \<open>The format \<^verbatim>\<open>f"{mask_id:03d}"\<close> for a non-negative \<open>mask_id\<close>: zeros on the left up
  to a width of at least 3.\<close>

definition fmt03d :: "nat \<Rightarrow> string" where
  "fmt03d n = replicate (3 - length (str_nat n)) CHR ''0'' @ str_nat n"

text \<open>\<^verbatim>\<open>str(list)\<close>, given the \<^verbatim>\<open>repr\<close> of every element.\<close>

definition str_list :: "string list \<Rightarrow> string" where
  "str_list reprs = ''['' @ join_py '', '' reprs @ '']''"

section \<open>The image resolver\<close>

text \<open>
  \<^verbatim>\<open>
  def get_image(annotation_name, image_dir):
      image_name = "_".join(annotation_name.split("_")[:-1])
      image_file = image_dir.joinpath(image_name + ".jpg")
      if image_file.exists():
          test_image = Image.open(image_file)
          return np.array(test_image), image_file
      else:
          return None, None
  \<close>
\<close>

definition image_name_of :: "string \<Rightarrow> string" where
  "image_name_of annotation_name = join_py ''_'' (butlast (split_py CHR ''_'' annotation_name))"

definition image_file_of :: "string \<Rightarrow> path \<Rightarrow> path" where
  "image_file_of annotation_name image_dir =
     joinpath image_dir (image_name_of annotation_name @ ''.jpg'')"


section \<open>Data of the pipeline\<close>

text \<open>One row of an annotation file, as \<^verbatim>\<open>pd.read_csv(..., names=["x", "y", "label"])\<close>
  yields it. The type \<open>'c\<close> of a cell of the columns \<open>x\<close> and \<open>y\<close> is left open: it stands for
  a value together with the type pandas holds it in (an integer, a float, a text). The
  notebook does no arithmetic on these cells, it passes them to the predictor and prints
  them.\<close>

record 'c annotation =
  x_col :: 'c
  y_col :: 'c
  label_col :: string

text \<open>A mask as the predictor returns it is a grid of booleans; the raster written to disk
  has \<^verbatim>\<open>np.uint8\<close> pixels.\<close>

type_synonym mask_grid = "bool list list"
type_synonym raster = "8 word list list"

text \<open>One row of \<^verbatim>\<open>df_result\<close>, with the four columns the notebook declares.\<close>

record polygon_record =
  image_file :: string
  prompt :: string
  mask_id :: string
  polygon :: string

datatype content = Png raster | Csv "polygon_record list"

datatype error =
    ParserError string
  | PredictError string
  | ValueError
  | IndexError
  | NameError

text \<open>
  What the notebook calls and does not define: the file system, pandas, NumPy's sort, the
  SAM2 predictor and \<^verbatim>\<open>utils.get_polygon\<close>.
  \<^item> \<open>read_csv\<close> is \<^verbatim>\<open>pd.read_csv\<close> as the notebook calls it, without \<^verbatim>\<open>dtype\<close>: what it
    raises, and what it returns for a field that is not a number, is pandas' choice.
  \<^item> \<open>iterrows_cell\<close>: \<^verbatim>\<open>df.iterrows()\<close> yields every row as a Series with one dtype for
    its three cells, the common dtype of the three columns of the frame. So the label column
    takes part in deciding how \<^verbatim>\<open>row["x"]\<close> and \<^verbatim>\<open>row["y"]\<close> are held (integer labels keep
    integer coordinates, float labels turn them into floats, text labels make the row a row
    of objects). \<open>iterrows_cell e df v\<close> is the cell \<open>v\<close> of the frame \<open>df\<close> as such a row holds
    it.
  \<^item> \<open>predict\<close>: the predictor's arrays \<^verbatim>\<open>masks\<close> and \<^verbatim>\<open>scores\<close>, of equal length, are one
    list of pairs; scores are values of a linear order.
  \<^item> \<open>tie_rank\<close>: \<^verbatim>\<open>np.argsort\<close> with its default kind is not a stable sort: it returns
    the indices in ascending order of score, and does not fix the order of the indices of
    equal scores. \<open>tie_rank e scores i\<close> is the rank that the sort at hand gives index \<open>i\<close>
    among the indices of equal score.
  \<^item> \<open>get_polygon\<close> returns the vertices of a contour, with integer pixel coordinates.
  \<^item> \<open>repr_coord\<close> is the text that \<^verbatim>\<open>str\<close> of a list prints for a cell.

  The plotting helpers
  \<^verbatim>\<open>show_res_multi\<close>, \<^verbatim>\<open>show_points\<close> and the helper \<^verbatim>\<open>save_image_masks\<close> of \<^verbatim>\<open>utils\<close> are not
  part of the sources; the state below records the files the notebook itself writes.
  Directories are not modelled: the two \<^verbatim>\<open>mkdir\<close> calls are taken to succeed, and
  progress messages are left out.
\<close>

record ('i, 'c, 's) env =
  exists_file :: "path \<Rightarrow> bool"
  open_image :: "path \<Rightarrow> 'i"
  read_csv :: "path \<Rightarrow> error + 'c annotation list"
  iterrows_cell :: "'c annotation list \<Rightarrow> 'c \<Rightarrow> 'c"
  predict :: "'i \<Rightarrow> 'c \<times> 'c \<Rightarrow> int \<Rightarrow> bool \<Rightarrow> error + (mask_grid \<times> 's) list"
  tie_rank :: "'s list \<Rightarrow> nat \<Rightarrow> nat"
  get_polygon :: "raster \<Rightarrow> (int \<times> int) list"
  repr_coord :: "'c \<Rightarrow> string"

definition get_image :: "('i, 'c, 's) env \<Rightarrow> string \<Rightarrow> path \<Rightarrow> ('i \<times> path) option" where
  "get_image e annotation_name image_dir =
     (let img_file = image_file_of annotation_name image_dir
      in if exists_file e img_file then Some (open_image e img_file, img_file) else None)"

text \<open>\<^verbatim>\<open>df_annotations.iterrows()\<close>: the rows in file order, each with its cells \<open>x\<close> and \<open>y\<close>
  held in the common dtype of the frame. The label cell is converted likewise; the notebook
  never reads it.\<close>

definition iterrows :: "('i, 'c, 's) env \<Rightarrow> 'c annotation list \<Rightarrow> 'c annotation list" where
  "iterrows e df =
     map (\<lambda>r. r\<lparr>x_col := iterrows_cell e df (x_col r), y_col := iterrows_cell e df (y_col r)\<rparr>) df"

section \<open>Mask selection\<close>

text \<open>\<^verbatim>\<open>np.argsort(scores)\<close>: the indices in ascending order of score; among the indices of
  equal scores, in the order of the ranks \<open>ties scores\<close> that the sort at hand gives them (and
  indices of equal score and equal rank in their original order). Every order that sorts
  the scores is obtained for some ranks, and no other.\<close>

definition argsort :: "('s list \<Rightarrow> nat \<Rightarrow> nat) \<Rightarrow> 's::linorder list \<Rightarrow> nat list" where
  "argsort ties scores = sort_key (\<lambda>i. (scores ! i, ties scores i)) [0..<length scores]"

text \<open>
  \<^verbatim>\<open>
  sorted_ind = np.argsort(scores)[::-1]
  masks = masks[sorted_ind]
  scores = scores[sorted_ind]
  \<close>
\<close>

definition sort_candidates ::
  "('i, 'c, 's::linorder) env \<Rightarrow> (mask_grid \<times> 's) list \<Rightarrow> (mask_grid \<times> 's) list" where
  "sort_candidates e cands =
     (let sorted_ind = rev (argsort (tie_rank e) (map snd cands))
      in map (\<lambda>i. cands ! i) sorted_ind)"

section \<open>The per-point prediction loop\<close>

text \<open>The notebook's variables that the loop updates. \<open>row\<close> is the loop variable of
  \<^verbatim>\<open>for i, row in df_annotations.iterrows()\<close>; like every name of a notebook it stays bound
  after the loop.\<close>

record ('c, 's) loop_vars =
  row :: "'c annotation option"
  all_prompts :: "('c \<times> 'c) list"
  all_masks :: "mask_grid list list"
  all_scores :: "'s list list"

text \<open>
  \<^verbatim>\<open>
  for i, row in df_annotations.iterrows():
      prompt = np.array([[row["x"], row["y"]]])
      masks, scores, _ = predictor.predict(
          point_coords=prompt, point_labels=np.ones(1), multimask_output=False)
      sorted_ind = np.argsort(scores)[::-1]
      masks = masks[sorted_ind]
      scores = scores[sorted_ind]
      all_prompts.append(prompt[0])
      all_masks.append(masks)
      all_scores.append(scores)
  \<close>
  An exception of the predictor leaves the loop with the variables as they are. The array
  \<^verbatim>\<open>prompt\<close> holds the two cells of the row; the model hands the predictor the pair of
  cells, with the label 1 of \<^verbatim>\<open>np.ones(1)\<close> and \<open>False\<close> for \<^verbatim>\<open>multimask_output\<close>.
\<close>

fun predict_loop ::
  "('i, 'c, 's::linorder) env \<Rightarrow> 'i \<Rightarrow> 'c annotation list \<Rightarrow> ('c, 's) loop_vars
     \<Rightarrow> error option \<times> ('c, 's) loop_vars" where
  "predict_loop e img [] v = (None, v)"
| "predict_loop e img (r # rs) v =
     (let v1 = v\<lparr>row := Some r\<rparr>;
          pt = (x_col r, y_col r)
      in case predict e img pt 1 False of
           Inl err \<Rightarrow> (Some err, v1)
         | Inr cands \<Rightarrow>
             (let sorted = sort_candidates e cands
              in predict_loop e img rs
                   (v1\<lparr>all_prompts := all_prompts v1 @ [pt],
                       all_masks := all_masks v1 @ [map fst sorted],
                       all_scores := all_scores v1 @ [map snd sorted]\<rparr>)))"

section \<open>Writing the masks and the table\<close>

text \<open>\<^verbatim>\<open>mask[0].astype(np.uint8) * 255\<close>, the product taken in \<^verbatim>\<open>uint8\<close>.\<close>

definition to_uint8 :: "bool \<Rightarrow> 8 word" where
  "to_uint8 b = (if b then 1 else 0)"

definition scale_mask :: "mask_grid \<Rightarrow> raster" where
  "scale_mask m = map (map (\<lambda>b. to_uint8 b * 255)) m"

text \<open>\<^verbatim>\<open>polygon.ravel().tolist()\<close>: the coordinates of the vertices, one after the other.\<close>

definition ravel :: "(int \<times> int) list \<Rightarrow> int list" where
  "ravel vs = concat (map (\<lambda>(a, b). [a, b]) vs)"

text \<open>The files written so far, oldest first, with the table under construction.\<close>

record save_vars =
  files :: "(path \<times> content) list"
  df_result :: "polygon_record list"

text \<open>
  \<^verbatim>\<open>
  for i, mask in enumerate(all_masks):
      mask_np = mask[0].astype(np.uint8) * 255
      mask_img = Image.fromarray(mask_np)
      mask_id = i + 1
      mask_img.save(save_dir.joinpath(f"{mask_id:03d}.png"))
      df_result.loc[i, "image_file"] = image_file.name
      df_result.loc[i, "prompt"] = str([row["x"], row["y"]])
      df_result.loc[i, "mask_id"] = f"{mask_id:03d}"
      polygon = get_polygon(mask_np)
      df_result.loc[i, "polygon"] = str(polygon.ravel().tolist())
  \<close>
  \<^verbatim>\<open>mask[0]\<close> raises \<^verbatim>\<open>IndexError\<close> on an array without candidates, and \<open>row\<close> is the
  variable the prediction loop left behind.
\<close>

fun save_loop ::
  "('i, 'c, 's) env \<Rightarrow> path \<Rightarrow> path \<Rightarrow> 'c annotation option \<Rightarrow> nat \<Rightarrow> mask_grid list list
     \<Rightarrow> save_vars \<Rightarrow> error option \<times> save_vars" where
  "save_loop e save_dir img_file rw i [] s = (None, s)"
| "save_loop e save_dir img_file rw i (m # ms) s =
     (case m of
        [] \<Rightarrow> (Some IndexError, s)
      | m0 # _ \<Rightarrow>
          (let mask_np = scale_mask m0;
               mid = i + 1;
               s1 = s\<lparr>files := files s @ [(joinpath save_dir (fmt03d mid @ ''.png''), Png mask_np)]\<rparr>
           in case rw of
                None \<Rightarrow> (Some NameError, s1)
              | Some r \<Rightarrow>
                  (let rec = \<lparr>image_file = path_name img_file,
                              prompt = str_list [repr_coord e (x_col r), repr_coord e (y_col r)],
                              mask_id = fmt03d mid,
                              polygon = str_list (map str_int (ravel (get_polygon e mask_np)))\<rparr>
                   in save_loop e save_dir img_file rw (Suc i) ms
                        (s1\<lparr>df_result := df_result s1 @ [rec]\<rparr>))))"

section \<open>The run over the annotation files\<close>

text \<open>The state of a run: the notebook's variable \<open>row\<close> and the files written.\<close>

record 'c run_state =
  row_var :: "'c annotation option"
  written :: "(path \<times> content) list"

text \<open>
  The body of \<^verbatim>\<open>for file in annotation_files\<close>. The result \<open>None\<close> is the end of the body
  or its \<^verbatim>\<open>continue\<close>; \<open>Some err\<close> is an exception, which nothing in the notebook
  catches. \<^verbatim>\<open>np.vstack(all_prompts)\<close>, in the display of the results, raises
  \<^verbatim>\<open>ValueError\<close> on an empty list.
  \<^verbatim>\<open>
  image, image_file = get_image(file.stem, image_dir)
  if image is None:
      continue
  df_annotations = pd.read_csv(file, delimiter="\t", header=None, names=["x", "y", "label"])
  ...
  predictor.set_image(image)
  for i, row in df_annotations.iterrows(): ...
  ...
  show_points(np.vstack(all_prompts), np.ones(len(all_prompts)), ax=ax)
  ...
  save_dir = results_dir.joinpath(image_file.stem)
  for i, mask in enumerate(all_masks): ...
  df_result.to_csv(save_dir.joinpath("polygon_masks.csv"), index=False)
  \<close>
\<close>

definition process_file ::
  "('i, 'c, 's::linorder) env \<Rightarrow> path \<Rightarrow> path \<Rightarrow> path \<Rightarrow> 'c run_state
     \<Rightarrow> error option \<times> 'c run_state" where
  "process_file e image_dir results_dir file st =
     (case get_image e (path_stem file) image_dir of
        None \<Rightarrow> (None, st)
      | Some (img, img_file) \<Rightarrow>
          (case read_csv e file of
             Inl err \<Rightarrow> (Some err, st)
           | Inr df_annotations \<Rightarrow>
               (case predict_loop e img (iterrows e df_annotations)
                       \<lparr>row = row_var st, all_prompts = [], all_masks = [], all_scores = []\<rparr> of
                  (Some err, v) \<Rightarrow> (Some err, st\<lparr>row_var := row v\<rparr>)
                | (None, v) \<Rightarrow>
                    (let st1 = st\<lparr>row_var := row v\<rparr>
                     in if all_prompts v = [] then (Some ValueError, st1)
                        else
                          (let save_dir = joinpath results_dir (path_stem img_file)
                           in case save_loop e save_dir img_file (row v) 0 (all_masks v)
                                     \<lparr>files = written st1, df_result = []\<rparr> of
                                (Some err, s) \<Rightarrow> (Some err, st1\<lparr>written := files s\<rparr>)
                              | (None, s) \<Rightarrow>
                                  (None, st1\<lparr>written := files s @
                                     [(joinpath save_dir ''polygon_masks.csv'',
                                       Csv (df_result s))]\<rparr>))))))"

text \<open>The loop over the files: an exception ends the run where it is raised.\<close>

fun run ::
  "('i, 'c, 's::linorder) env \<Rightarrow> path \<Rightarrow> path \<Rightarrow> path list \<Rightarrow> 'c run_state
     \<Rightarrow> error option \<times> 'c run_state" where
  "run e image_dir results_dir [] st = (None, st)"
| "run e image_dir results_dir (file # rest) st =
     (case process_file e image_dir results_dir file st of
        (Some err, st1) \<Rightarrow> (Some err, st1)
      | (None, st1) \<Rightarrow> run e image_dir results_dir rest st1)"

definition initial_state :: "'c run_state" where
  "initial_state = \<lparr>row_var = None, written = []\<rparr>"

section \<open>Reading the polygon column back\<close>

text \<open>
  Modelled from the spec: the re-parsing of the polygon column. The notebook only writes the
  table and nothing in the sources reads it; the specification speaks of ``a polygon written
  to the table and re-parsed''. The reader below accepts the text of a Python list of
  integers, \<^verbatim>\<open>[a, b, ...]\<close>, with optional blanks before an element.
\<close>

definition is_digit :: "char \<Rightarrow> bool" where
  "is_digit c = (c \<in> set ''0123456789'')"

definition digit_val :: "char \<Rightarrow> nat" where
  "digit_val c = of_char c - 48"

definition parse_nat :: "string \<Rightarrow> nat option" where
  "parse_nat s =
     (if s \<noteq> [] \<and> list_all is_digit s
      then Some (foldl (\<lambda>a c. 10 * a + digit_val c) 0 s) else None)"

definition parse_int :: "string \<Rightarrow> int option" where
  "parse_int s =
     (case s of
        [] \<Rightarrow> None
      | c # ds \<Rightarrow> (if c = CHR ''-'' then map_option (\<lambda>n. - int n) (parse_nat ds)
                   else map_option int (parse_nat s)))"

definition lstrip :: "string \<Rightarrow> string" where
  "lstrip s = dropWhile (\<lambda>c. c = CHR '' '') s"

definition parse_int_list :: "string \<Rightarrow> int list option" where
  "parse_int_list s =
     (case s of
        [] \<Rightarrow> None
      | c # rest \<Rightarrow>
          (if c = CHR ''['' \<and> rest \<noteq> [] \<and> last rest = CHR '']''
           then (let inner = butlast rest
                 in if inner = [] then Some []
                    else those (map (\<lambda>t. parse_int (lstrip t)) (split_py CHR '','' inner)))
           else None))"

section \<open>Closed forms of the loops\<close>

text \<open>What one annotation row contributes when the predictor answers: its prompt, the
  candidates in the order the notebook keeps them, and the masks among them.\<close>

definition xy :: "'c annotation \<Rightarrow> 'c \<times> 'c" where
  "xy r = (x_col r, y_col r)"

definition ranked ::
  "('i, 'c, 's::linorder) env \<Rightarrow> 'i \<Rightarrow> 'c annotation \<Rightarrow> (mask_grid \<times> 's) list" where
  "ranked e img r =
     (case predict e img (x_col r, y_col r) 1 False of
        Inl _ \<Rightarrow> []
      | Inr cands \<Rightarrow> sort_candidates e cands)"

definition retained ::
  "('i, 'c, 's::linorder) env \<Rightarrow> 'i \<Rightarrow> 'c annotation \<Rightarrow> mask_grid list" where
  "retained e img r = map fst (ranked e img r)"

text \<open>The file and the table row that the saving loop produces at index \<open>k\<close> for the
  non-empty array \<open>m\<close> of masks, when \<open>row\<close> holds \<open>r\<close>.\<close>

definition png_entry :: "path \<Rightarrow> nat \<Rightarrow> mask_grid list \<Rightarrow> path \<times> content" where
  "png_entry save_dir k m =
     (joinpath save_dir (fmt03d (Suc k) @ ''.png''), Png (scale_mask (hd m)))"

definition table_row ::
  "('i, 'c, 's) env \<Rightarrow> path \<Rightarrow> 'c annotation \<Rightarrow> nat \<Rightarrow> mask_grid list \<Rightarrow> polygon_record" where
  "table_row e img_file r k m =
     \<lparr>image_file = path_name img_file,
      prompt = str_list [repr_coord e (x_col r), repr_coord e (y_col r)],
      mask_id = fmt03d (Suc k),
      polygon = str_list (map str_int (ravel (get_polygon e (scale_mask (hd m)))))\<rparr>"

definition is_png :: "content \<Rightarrow> bool" where
  "is_png c = (case c of Png _ \<Rightarrow> True | Csv _ \<Rightarrow> False)"

section \<open>Annotation files that differ in the label column only\<close>

text \<open>\<open>relabel labels rows\<close> replaces the label of the row at index \<open>i\<close> by \<open>labels i\<close>;
  \<open>relabel_env\<close> does so in every annotation file that pandas reads. The conversion of the
  cells by \<open>iterrows\<close> then sees the new label column.\<close>

definition relabel :: "(nat \<Rightarrow> string) \<Rightarrow> 'c annotation list \<Rightarrow> 'c annotation list" where
  "relabel labels rows = map (\<lambda>(i, r). r\<lparr>label_col := labels i\<rparr>) (enumerate 0 rows)"

definition relabel_env ::
  "(path \<Rightarrow> nat \<Rightarrow> string) \<Rightarrow> ('i, 'c, 's) env \<Rightarrow> ('i, 'c, 's) env" where
  "relabel_env labels e =
     e\<lparr>read_csv := (\<lambda>f. case read_csv e f of
                            Inl err \<Rightarrow> Inl err
                          | Inr rows \<Rightarrow> Inr (relabel (labels f) rows))\<rparr>"

text \<open>A predictor that is only ever asked with the label 1 and without multimask output.\<close>

definition positive_label_only :: "('i, 'c, 's) env \<Rightarrow> ('i, 'c, 's) env" where
  "positive_label_only e = e\<lparr>predict := (\<lambda>img pt lbl multimask. predict e img pt 1 False)\<rparr>"

text \<open>A written file without the text of its \<open>prompt\<close> column.\<close>

definition blank_prompt :: "polygon_record \<Rightarrow> polygon_record" where
  "blank_prompt r = r\<lparr>prompt := []\<rparr>"

definition blank_prompts :: "path \<times> content \<Rightarrow> path \<times> content" where
  "blank_prompts f =
     (case f of
        (p, Png r) \<Rightarrow> (p, Png r)
      | (p, Csv t) \<Rightarrow> (p, Csv (map blank_prompt t)))"

text \<open>The relations that two such runs keep: the rows get the same answer of the predictor,
  and the variables and files agree up to the cells of \<open>row\<close> and the text printed from them.\<close>

definition same_answer :: "('i, 'c, 's) env \<Rightarrow> 'i \<Rightarrow> 'c annotation \<Rightarrow> 'c annotation \<Rightarrow> bool" where
  "same_answer e img r r' =
     (predict e img (x_col r, y_col r) 1 False = predict e img (x_col r', y_col r') 1 False)"

definition vars_rel :: "('c, 's) loop_vars \<Rightarrow> ('c, 's) loop_vars \<Rightarrow> bool" where
  "vars_rel v v' =
     ((row v = None) = (row v' = None) \<and> length (all_prompts v) = length (all_prompts v') \<and>
      all_masks v = all_masks v' \<and> all_scores v = all_scores v')"

definition save_rel :: "save_vars \<Rightarrow> save_vars \<Rightarrow> bool" where
  "save_rel s s' =
     (map blank_prompts (files s) = map blank_prompts (files s') \<and>
      map blank_prompt (df_result s) = map blank_prompt (df_result s'))"

definition state_rel :: "'c run_state \<Rightarrow> 'c run_state \<Rightarrow> bool" where
  "state_rel st st' =
     ((row_var st = None) = (row_var st' = None) \<and>
      map blank_prompts (written st) = map blank_prompts (written st'))"

section \<open>Example runs\<close>

text \<open>
  An image directory \<^verbatim>\<open>data\<close> with three images and five annotation files:
  \<^verbatim>\<open>img_01_pts.txt\<close> holds the points (10, 10, a) and (50, 50, b); \<^verbatim>\<open>img_04_pts.txt\<close> is
  empty; \<^verbatim>\<open>img_03_pts.txt\<close> does not parse; \<^verbatim>\<open>img_02_pts.txt\<close> has no image; \<^verbatim>\<open>notes.txt\<close>
  has no underscore in its name. The predictor returns one candidate per point. The labels
  are texts, so every row is a row of objects and holds its coordinates as pandas read them;
  the sort returns the indices of equal scores in their original order.
\<close>

definition example_rows :: "int annotation list" where
  "example_rows =
     [\<lparr>x_col = 10, y_col = 10, label_col = ''a''\<rparr>,
      \<lparr>x_col = 50, y_col = 50, label_col = ''b''\<rparr>]"

definition example_env :: "(string, int, int) env" where
  "example_env =
     \<lparr>exists_file = (\<lambda>p. p = [''data'', ''img_01.jpg''] \<or> p = [''data'', ''img_03.jpg'']
                           \<or> p = [''data'', ''img_04.jpg'']),
      open_image = path_name,
      read_csv = (\<lambda>p. if p = [''data'', ''Annotations'', ''img_01_pts.txt''] then Inr example_rows
                      else if p = [''data'', ''Annotations'', ''img_04_pts.txt''] then Inr []
                      else Inl (ParserError ''could not convert string to float'')),
      iterrows_cell = (\<lambda>df v. v),
      predict = (\<lambda>img pt lbl multimask.
                   if pt = (10, 10) then Inr [([[True, False], [False, False]], 9)]
                   else Inr [([[False, False], [False, True]], 8)]),
      tie_rank = (\<lambda>scores i. i),
      get_polygon = (\<lambda>r. if r = [[255, 0], [0, 0]] then [(0, 0)] else [(1, 1)]),
      repr_coord = str_int\<rparr>"

definition example_file :: "string \<Rightarrow> path" where
  "example_file name = [''data'', ''Annotations'', name]"

text \<open>
  A second environment, with the cells as pandas holds them: an integer, a float (here
  always one with an integral value, \<open>FloatCell n\<close> standing for \<open>n.0\<close>) or a text.
  \<^item> \<^verbatim>\<open>img_01_pts.txt\<close> holds the points (10, 10, a) and (50, 50, b) again.
  \<^item> \<^verbatim>\<open>img_06_pts.txt\<close> holds one row whose \<open>x\<close> is not a number, \<^verbatim>\<open>abc 10 a\<close>: pandas, called
    without \<^verbatim>\<open>dtype\<close>, raises nothing and reads the column \<open>x\<close> as text.
  \<^item> A frame whose labels are the floats \<^verbatim>\<open>0.5\<close> and \<^verbatim>\<open>1.5\<close> and whose coordinates are
    integers has the common dtype \<^verbatim>\<open>float64\<close>: \<open>iterrows\<close> turns its coordinates into floats.
  \<^item> The predictor reads the coordinates as numbers, as SAM2 does when it converts them to a
    float tensor, and raises on a text; its answer depends on the label it is given.
  \<^item> \<open>str\<close> of a list prints the integer 10 as \<^verbatim>\<open>10\<close>, the float as \<^verbatim>\<open>10.0\<close> and the text
    \<^verbatim>\<open>abc\<close> as \<^verbatim>\<open>'abc'\<close>, as with NumPy 1.
\<close>

datatype cell = IntCell int | FloatCell int | TextCell string

definition number_of :: "cell \<Rightarrow> int option" where
  "number_of v = (case v of IntCell n \<Rightarrow> Some n | FloatCell n \<Rightarrow> Some n | TextCell _ \<Rightarrow> None)"

definition is_text :: "cell \<Rightarrow> bool" where
  "is_text v = (case v of TextCell _ \<Rightarrow> True | _ \<Rightarrow> False)"

definition to_float :: "cell \<Rightarrow> cell" where
  "to_float v = (case v of IntCell n \<Rightarrow> FloatCell n | _ \<Rightarrow> v)"

definition float_frame :: "cell annotation list \<Rightarrow> bool" where
  "float_frame df =
     (list_all (\<lambda>r. label_col r = ''0.5'' \<or> label_col r = ''1.5'') df \<and>
      list_all (\<lambda>r. \<not> (is_text (x_col r) \<or> is_text (y_col r))) df)"

definition cell_rows :: "cell annotation list" where
  "cell_rows =
     [\<lparr>x_col = IntCell 10, y_col = IntCell 10, label_col = ''a''\<rparr>,
      \<lparr>x_col = IntCell 50, y_col = IntCell 50, label_col = ''b''\<rparr>]"

definition pandas_env :: "(string, cell, int) env" where
  "pandas_env =
     \<lparr>exists_file = (\<lambda>p. p = [''data'', ''img_01.jpg''] \<or> p = [''data'', ''img_06.jpg'']),
      open_image = path_name,
      read_csv = (\<lambda>p. if p = [''data'', ''Annotations'', ''img_01_pts.txt''] then Inr cell_rows
                      else if p = [''data'', ''Annotations'', ''img_06_pts.txt'']
                      then Inr [\<lparr>x_col = TextCell ''abc'', y_col = IntCell 10, label_col = ''a''\<rparr>]
                      else Inl (ParserError ''No such file'')),
      iterrows_cell = (\<lambda>df v. if float_frame df then to_float v else v),
      predict = (\<lambda>img pt lbl multimask.
                   case (number_of (fst pt), number_of (snd pt)) of
                     (Some a, Some b) \<Rightarrow>
                       (if lbl = 1 \<and> (a, b) = (10, 10) then Inr [([[True, False], [False, False]], 9)]
                        else if lbl = 1 then Inr [([[False, False], [False, True]], 8)]
                        else Inr [([[True, True], [True, True]], 1)])
                   | _ \<Rightarrow> Inl (PredictError ''TypeError'')),
      tie_rank = (\<lambda>scores i. i),
      get_polygon = (\<lambda>r. if r = [[255, 0], [0, 0]] then [(0, 0)] else [(1, 1)]),
      repr_coord = (\<lambda>v. case v of
                           IntCell n \<Rightarrow> str_int n
                         | FloatCell n \<Rightarrow> str_int n @ ''.0''
                         | TextCell t \<Rightarrow> CHR 0x27 # t @ [CHR 0x27])\<rparr>"

text \<open>The labels of the example turned into floats.\<close>

definition float_labels :: "path \<Rightarrow> nat \<Rightarrow> string" where
  "float_labels f i = (if i = 0 then ''0.5'' else ''1.5'')"

section \<open>Properties of the string functions\<close>

lemma digit_cases: "d < 10 \<Longrightarrow> d = 0 \<or> d = 1 \<or> d = 2 \<or> d = 3 \<or> d = 4 \<or> d = 5 \<or> d = 6 \<or> d = 7 \<or> d = 8 \<or> d = (9::nat)"
  by arith

lemma is_digit_digit_char: "is_digit (digit_char d)"
proof -
  have "d mod 10 < 10" by simp
  from digit_cases [OF this] show ?thesis
    by (auto simp: is_digit_def digit_char_def)
qed

lemma digit_val_digit_char: "digit_val (digit_char d) = d mod 10"
proof -
  have "d mod 10 < 10" by simp
  from digit_cases [OF this] show ?thesis
    by (auto simp: digit_val_def digit_char_def)
qed

lemma str_nat_not_Nil: "str_nat n \<noteq> []"
  by (subst str_nat.simps) simp

lemma str_nat_digits: "list_all is_digit (str_nat n)"
proof (induction n rule: str_nat.induct)
  case (1 n)
  show ?case
    by (subst str_nat.simps) (use 1 in \<open>simp add: is_digit_digit_char\<close>)
qed

lemma str_nat_value: "foldl (\<lambda>a c. 10 * a + digit_val c) 0 (str_nat n) = n"
proof (induction n rule: str_nat.induct)
  case (1 n)
  show ?case
  proof (cases "n < 10")
    case True
    then show ?thesis
      by (subst str_nat.simps) (simp add: digit_val_digit_char)
  next
    case False
    then have ih: "foldl (\<lambda>a c. 10 * a + digit_val c) 0 (str_nat (n div 10)) = n div 10"
      using 1 by simp
    have "foldl (\<lambda>a c. 10 * a + digit_val c) 0 (str_nat n) = 10 * (n div 10) + n mod 10"
      by (subst str_nat.simps) (simp only: False if_False foldl_append foldl.simps ih
          digit_val_digit_char mod_mod_trivial)
    then show ?thesis by simp
  qed
qed

lemma parse_nat_str_nat: "parse_nat (str_nat n) = Some n"
  by (simp add: parse_nat_def str_nat_not_Nil str_nat_digits str_nat_value)

lemma str_nat_inj: "str_nat m = str_nat n \<Longrightarrow> m = n"
  by (metis option.inject parse_nat_str_nat)

lemma str_nat_hd_digit: "\<exists>c cs. str_nat n = c # cs \<and> is_digit c"
  using str_nat_not_Nil [of n] str_nat_digits [of n] by (cases "str_nat n") auto

lemma parse_int_str_int: "parse_int (str_int i) = Some i"
proof (cases "i < 0")
  case True
  then show ?thesis by (simp add: parse_int_def str_int_def parse_nat_str_nat)
next
  case False
  obtain c cs where s: "str_nat (nat i) = c # cs" and d: "is_digit c"
    using str_nat_hd_digit by blast
  from d have "c \<noteq> CHR ''-''" by (auto simp: is_digit_def)
  moreover have "parse_nat (c # cs) = Some (nat i)"
    using parse_nat_str_nat [of "nat i"] s by simp
  ultimately show ?thesis using False by (simp add: parse_int_def str_int_def s)
qed

lemma str_int_chars: "c \<in> set (str_int i) \<Longrightarrow> is_digit c \<or> c = CHR ''-''"
  using str_nat_digits by (auto simp: str_int_def list_all_iff split: if_splits)

lemma str_int_no_comma: "CHR '','' \<notin> set (str_int i)"
  using str_int_chars [of "CHR '',''" i] by (auto simp: is_digit_def)

lemma str_int_not_Nil: "str_int i \<noteq> []"
  by (simp add: str_int_def str_nat_not_Nil)

lemma lstrip_str_int: "lstrip (str_int i) = str_int i"
proof -
  obtain c cs where s: "str_int i = c # cs" using str_int_not_Nil by (cases "str_int i") auto
  then have "c \<in> set (str_int i)" by simp
  then have "c \<noteq> CHR '' ''" using str_int_chars [of c i] by (auto simp: is_digit_def)
  then show ?thesis by (simp add: lstrip_def s)
qed

lemma lstrip_space_str_int: "lstrip (CHR '' '' # str_int i) = str_int i"
  using lstrip_str_int [of i] by (simp add: lstrip_def)

lemma split_py_not_Nil: "split_py sep s \<noteq> []"
  by (induction s) (auto split: list.splits)

lemma split_py_no_sep: "sep \<notin> set s \<Longrightarrow> split_py sep s = [s]"
  by (induction s) auto

lemma split_py_append_sep: "split_py sep (a @ sep # b) = split_py sep a @ split_py sep b"
  by (induction a) (auto simp: split_py_not_Nil split: list.splits)

lemma split_py_join_comma:
  "ts \<noteq> [] \<Longrightarrow> \<forall>t\<in>set ts. CHR '','' \<notin> set t \<Longrightarrow>
   split_py CHR '','' (join_py '', '' ts) = hd ts # map ((#) CHR '' '') (tl ts)"
proof (induction "'', ''" ts rule: join_py.induct)
  case 1
  then show ?case by simp
next
  case (2 t)
  then show ?case by (simp add: split_py_no_sep)
next
  case (3 t u us)
  have "split_py CHR '','' (join_py '', '' (u # us)) = u # map ((#) CHR '' '') us"
    using 3 by simp
  then show ?case
    using 3(3) split_py_append_sep [of "CHR '',''" t "CHR '' '' # join_py '', '' (u # us)"]
    by (simp add: split_py_no_sep)
qed

lemma join_py_not_Nil: "ts \<noteq> [] \<Longrightarrow> hd ts \<noteq> [] \<Longrightarrow> join_py sep ts \<noteq> []"
  by (cases "(sep, ts)" rule: join_py.cases) auto

lemma those_map_Some: "those (map Some xs) = Some xs"
  by (induction xs) auto

lemma join_split_py: "join_py [sep] (split_py sep s) = s"
proof (induction s)
  case Nil
  then show ?case by simp
next
  case (Cons c cs)
  show ?case
  proof (cases "c = sep")
    case True
    obtain w ws where "split_py sep cs = w # ws"
      using split_py_not_Nil [of sep cs] by (cases "split_py sep cs") auto
    with Cons True show ?thesis by simp
  next
    case False
    obtain w ws where ws: "split_py sep cs = w # ws"
      using split_py_not_Nil [of sep cs] by (cases "split_py sep cs") auto
    with Cons False show ?thesis by (cases ws) auto
  qed
qed

lemma image_name_of_suffix:
  "CHR ''_'' \<notin> set suffix \<Longrightarrow> image_name_of (name @ CHR ''_'' # suffix) = name"
  by (simp add: image_name_of_def split_py_append_sep split_py_no_sep join_split_py)

lemma image_name_of_no_underscore:
  "CHR ''_'' \<notin> set stem \<Longrightarrow> image_name_of stem = []"
  by (simp add: image_name_of_def split_py_no_sep)

section \<open>Properties of the mask selection\<close>

lemma sorted_le_last: "sorted xs \<Longrightarrow> x \<in> set xs \<Longrightarrow> x \<le> last xs"
  by (induction xs) auto

lemma length_argsort: "length (argsort ties scores) = length scores"
  by (simp add: argsort_def)

lemma set_argsort: "set (argsort ties scores) = {0..<length scores}"
  by (simp add: argsort_def)

lemma argsort_last_maximum:
  fixes scores :: "'s::linorder list"
  assumes ne: "scores \<noteq> []"
  shows "last (argsort ties scores) < length scores"
    and "\<forall>i<length scores. scores ! i \<le> scores ! last (argsort ties scores)"
proof -
  let ?key = "\<lambda>i. (scores ! i, ties scores i)"
  let ?l = "argsort ties scores"
  let ?j = "last ?l"
  have l_ne: "?l \<noteq> []" using ne length_argsort [of ties scores] by auto
  then have "?j \<in> set ?l" by simp
  then show "?j < length scores" by (simp add: set_argsort)
  have srt: "sorted (map ?key ?l)" by (simp add: argsort_def)
  have lastmap: "last (map ?key ?l) = ?key ?j" using l_ne by (simp add: last_map)
  show "\<forall>i<length scores. scores ! i \<le> scores ! ?j"
  proof (intro allI impI)
    fix i assume "i < length scores"
    then have "?key i \<in> set (map ?key ?l)" by (simp add: set_argsort)
    then have "?key i \<le> last (map ?key ?l)" using srt by (rule sorted_le_last [rotated])
    then have "?key i \<le> ?key ?j" by (simp only: lastmap)
    then show "scores ! i \<le> scores ! ?j" by (auto simp: less_eq_prod_def)
  qed
qed

lemma length_sort_candidates: "length (sort_candidates e cands) = length cands"
  by (simp add: sort_candidates_def length_argsort Let_def)

lemma sort_candidates_not_Nil: "sort_candidates e (c # cs) \<noteq> []"
  using length_sort_candidates [of e "c # cs"] by auto

text \<open>Both orders of the indices of equal scores are orders that sort the scores: with the
  ranks in the original order the sort of the scores 2, 2, 1, 0 is 3, 2, 0, 1, and with the
  ranks in the opposite order it is 3, 2, 1, 0.\<close>

lemma argsort_ties_in_order: "argsort (\<lambda>scores i. i) [2, 2, 1, 0 :: int] = [3, 2, 0, 1]"
  by (simp add: argsort_def upt_conv_Cons)

lemma argsort_ties_reversed:
  "argsort (\<lambda>scores i. length scores - i) [2, 2, 1, 0 :: int] = [3, 2, 1, 0]"
  by (simp add: argsort_def upt_conv_Cons)

section \<open>Properties of the loops\<close>

lemma predict_loop_ok:
  assumes "\<forall>r\<in>set rows. \<exists>cands. predict e img (x_col r, y_col r) 1 False = Inr cands"
  shows "predict_loop e img rows v =
           (None, \<lparr>row = (if rows = [] then row v else Some (last rows)),
                   all_prompts = all_prompts v @ map xy rows,
                   all_masks = all_masks v @ map (retained e img) rows,
                   all_scores = all_scores v @ map (\<lambda>r. map snd (ranked e img r)) rows\<rparr>)"
  using assms
proof (induction rows arbitrary: v)
  case Nil
  then show ?case by simp
next
  case (Cons r rs)
  then obtain cands where c: "predict e img (x_col r, y_col r) 1 False = Inr cands"
    by auto
  have rest: "\<forall>r\<in>set rs. \<exists>cands. predict e img (x_col r, y_col r) 1 False = Inr cands"
    using Cons.prems by simp
  show ?case
    by (simp add: c Cons.IH [OF rest] retained_def ranked_def xy_def Let_def)
qed

lemma save_loop_ok:
  assumes "\<forall>m\<in>set ms. m \<noteq> []"
  shows "save_loop e save_dir img_file (Some r) i ms s =
           (None, \<lparr>files = files s @ map (\<lambda>(k, m). png_entry save_dir k m) (enumerate i ms),
                   df_result = df_result s @ map (\<lambda>(k, m). table_row e img_file r k m) (enumerate i ms)\<rparr>)"
  using assms
proof (induction ms arbitrary: i s)
  case Nil
  then show ?case by simp
next
  case (Cons m ms)
  then obtain m0 rest where m: "m = m0 # rest" by (cases m) auto
  have tl: "\<forall>m\<in>set ms. m \<noteq> []" using Cons.prems by simp
  show ?case
    by (simp add: m Cons.IH [OF tl] png_entry_def table_row_def Let_def)
qed

lemma length_iterrows: "length (iterrows e df) = length df"
  by (simp add: iterrows_def)

lemma iterrows_not_Nil: "df \<noteq> [] \<Longrightarrow> iterrows e df \<noteq> []"
  by (simp add: iterrows_def)

lemma process_file_ok:
  assumes ex: "exists_file e (image_file_of (path_stem file) image_dir)"
    and csv: "read_csv e file = Inr rows"
    and ne: "rows \<noteq> []"
    and pr: "\<forall>r\<in>set (iterrows e rows). \<exists>c cs.
               predict e (open_image e (image_file_of (path_stem file) image_dir))
                 (x_col r, y_col r) 1 False = Inr (c # cs)"
  shows "process_file e image_dir results_dir file st =
    (let img_file = image_file_of (path_stem file) image_dir;
         img = open_image e img_file;
         save_dir = joinpath results_dir (path_stem img_file);
         ms = map (retained e img) (iterrows e rows)
     in (None,
         st\<lparr>row_var := Some (last (iterrows e rows)),
          written := written st
            @ map (\<lambda>(k, m). png_entry save_dir k m) (enumerate 0 ms)
            @ [(joinpath save_dir ''polygon_masks.csv'',
                Csv (map (\<lambda>(k, m). table_row e img_file (last (iterrows e rows)) k m)
                       (enumerate 0 ms)))]\<rparr>))"
proof -
  let ?img_file = "image_file_of (path_stem file) image_dir"
  let ?img = "open_image e ?img_file"
  let ?rows = "iterrows e rows"
  have gi: "get_image e (path_stem file) image_dir = Some (?img, ?img_file)"
    using ex by (simp add: get_image_def Let_def)
  have ne': "?rows \<noteq> []" using ne by (rule iterrows_not_Nil)
  have pr': "\<forall>r\<in>set ?rows. \<exists>cands. predict e ?img (x_col r, y_col r) 1 False = Inr cands"
    using pr by blast
  have nonempty: "\<forall>m\<in>set (map (retained e ?img) ?rows). m \<noteq> []"
  proof
    fix m assume "m \<in> set (map (retained e ?img) ?rows)"
    then obtain r where r: "r \<in> set ?rows" and m: "m = retained e ?img r" by auto
    from pr r obtain c cs where "predict e ?img (x_col r, y_col r) 1 False = Inr (c # cs)"
      by blast
    then show "m \<noteq> []"
      by (simp add: m retained_def ranked_def sort_candidates_not_Nil)
  qed
  show ?thesis
    unfolding process_file_def
    by (simp add: gi csv predict_loop_ok [OF pr'] ne' save_loop_ok [OF nonempty] Let_def)
qed

section \<open>Evaluation and naming lemmas\<close>

lemma str_nat_digit [simp]: "n < 10 \<Longrightarrow> str_nat n = [digit_char n]"
  by (subst str_nat.simps) simp

lemma str_nat_numeral:
  "str_nat (numeral k) =
     (if (numeral k :: nat) < 10 then [digit_char (numeral k)]
      else str_nat (numeral k div 10) @ [digit_char (numeral k mod 10)])"
  by (rule str_nat.simps)

lemma length_str_nat_1: "n < 10 \<Longrightarrow> length (str_nat n) = 1"
  by simp

lemma length_str_nat_2: "10 \<le> n \<Longrightarrow> n < 100 \<Longrightarrow> length (str_nat n) = 2"
  by (subst str_nat.simps) simp

lemma length_str_nat_3: "100 \<le> n \<Longrightarrow> 3 \<le> length (str_nat n)"
proof -
  assume n: "100 \<le> n"
  obtain c cs where "str_nat (n div 10 div 10) = c # cs"
    using str_nat_not_Nil [of "n div 10 div 10"] by (cases "str_nat (n div 10 div 10)") auto
  moreover have "str_nat n = str_nat (n div 10 div 10) @ [digit_char (n div 10 mod 10), digit_char (n mod 10)]"
    using n by (subst str_nat.simps, simp, subst str_nat.simps, simp)
  ultimately show ?thesis by simp
qed

lemma fmt03d_cases:
  "fmt03d n = (if n < 10 then ''00'' @ str_nat n
               else if n < 100 then ''0'' @ str_nat n else str_nat n)"
  using length_str_nat_1 [of n] length_str_nat_2 [of n] length_str_nat_3 [of n]
  by (auto simp: fmt03d_def numeral_2_eq_2)

lemmas example_simps = str_nat_numeral fmt03d_cases
  example_env_def example_rows_def example_file_def initial_state_def process_file_def
  get_image_def image_file_of_def image_name_of_def path_stem_def path_name_def str_stem_def
  joinpath_def Let_def sort_candidates_def argsort_def scale_mask_def to_uint8_def iterrows_def
  str_list_def ravel_def str_int_def digit_char_def

lemma fmt03d_value: "foldl (\<lambda>a c. 10 * a + digit_val c) 0 (fmt03d n) = n"
proof -
  have z: "digit_val CHR ''0'' = 0" by (simp add: digit_val_def)
  show ?thesis by (simp add: fmt03d_cases str_nat_value digit_val_digit_char z)
qed

lemma fmt03d_inj: "fmt03d m = fmt03d n \<Longrightarrow> m = n"
  by (metis fmt03d_value)

lemma length_scale_mask: "length (scale_mask m) = length m"
  by (simp add: scale_mask_def)

lemma length_scale_mask_row: "y < length m \<Longrightarrow> length (scale_mask m ! y) = length (m ! y)"
  by (simp add: scale_mask_def)

lemma scale_mask_nth:
  "y < length m \<Longrightarrow> x < length (m ! y) \<Longrightarrow> scale_mask m ! y ! x = (if m ! y ! x then 255 else 0)"
  by (simp add: scale_mask_def to_uint8_def)

lemma scale_mask_pixels:
  "line \<in> set (scale_mask m) \<Longrightarrow> px \<in> set line \<Longrightarrow> px = 0 \<or> px = 255"
  by (auto simp: scale_mask_def to_uint8_def)

lemma map_enumerate_fst_from:
  "map (\<lambda>(k, m). g k) (enumerate n ms) = map g [n..<n + length ms]"
proof (induction ms arbitrary: n)
  case Nil
  then show ?case by simp
next
  case (Cons m ms)
  have "map (\<lambda>(k, m). g k) (enumerate n (m # ms)) =
        g n # map (\<lambda>(k, m). g k) (enumerate (Suc n) ms)"
    by simp
  also have "\<dots> = g n # map g [Suc n..<Suc n + length ms]"
    by (simp only: Cons.IH)
  also have "\<dots> = map g (n # [Suc n..<Suc n + length ms])"
    by simp
  also have "n # [Suc n..<Suc n + length ms] = [n..<n + length (m # ms)]"
    by (simp add: upt_conv_Cons del: upt_Suc)
  finally show ?case .
qed

lemma map_enumerate_fst: "map (\<lambda>(k, m). g k) (enumerate 0 ms) = map g [0..<length ms]"
  using map_enumerate_fst_from [of g 0 ms] by simp

lemma map_Suc_upt_0: "map (\<lambda>k. g (Suc k)) [0..<n] = map g [1..<Suc n]"
proof -
  have "map (\<lambda>k. g (Suc k)) [0..<n] = map g (map Suc [0..<n])"
    by (simp add: comp_def)
  also have "map Suc [0..<n] = [1..<Suc n]"
    by (simp add: map_Suc_upt)
  finally show ?thesis .
qed

lemma map_fst_png_entries:
  "map fst (map (\<lambda>(k, m). png_entry save_dir k m) (enumerate 0 ms)) =
   map (\<lambda>k. joinpath save_dir (fmt03d k @ ''.png'')) [1..<Suc (length ms)]"
proof -
  have "map fst (map (\<lambda>(k, m). png_entry save_dir k m) (enumerate 0 ms)) =
        map (\<lambda>(k, m). joinpath save_dir (fmt03d (Suc k) @ ''.png'')) (enumerate 0 ms)"
    by (simp add: png_entry_def case_prod_unfold comp_def)
  also have "\<dots> = map (\<lambda>k. joinpath save_dir (fmt03d (Suc k) @ ''.png'')) [0..<length ms]"
    by (rule map_enumerate_fst)
  also have "\<dots> = map (\<lambda>k. joinpath save_dir (fmt03d k @ ''.png'')) [1..<Suc (length ms)]"
    by (rule map_Suc_upt_0)
  finally show ?thesis .
qed

lemma map_mask_id_table_rows:
  "map mask_id (map (\<lambda>(k, m). table_row e img_file r k m) (enumerate 0 ms)) =
   map fmt03d [1..<Suc (length ms)]"
proof -
  have "map mask_id (map (\<lambda>(k, m). table_row e img_file r k m) (enumerate 0 ms)) =
        map (\<lambda>(k, m). fmt03d (Suc k)) (enumerate 0 ms)"
    by (simp add: table_row_def case_prod_unfold comp_def)
  also have "\<dots> = map (\<lambda>k. fmt03d (Suc k)) [0..<length ms]"
    by (rule map_enumerate_fst)
  also have "\<dots> = map fmt03d [1..<Suc (length ms)]"
    by (rule map_Suc_upt_0)
  finally show ?thesis .
qed

lemma distinct_png_names:
  "distinct (map (\<lambda>k. joinpath save_dir (fmt03d k @ ''.png'')) [1..<Suc n])"
proof -
  have "inj_on (\<lambda>k. joinpath save_dir (fmt03d k @ ''.png'')) (set [1..<Suc n])"
    by (rule inj_onI) (simp add: joinpath_def fmt03d_inj)
  then show ?thesis by (simp add: distinct_map)
qed

lemma list_all_is_png_entries:
  "list_all is_png (map snd (map (\<lambda>(k, m). png_entry save_dir k m) (enumerate 0 ms)))"
  by (simp add: list_all_iff png_entry_def is_png_def case_prod_unfold)

lemma example_hyps:
  "exists_file example_env (image_file_of (path_stem (example_file ''img_01_pts.txt'')) [''data''])"
  "read_csv example_env (example_file ''img_01_pts.txt'') = Inr example_rows"
  "example_rows \<noteq> []"
  "\<forall>r\<in>set (iterrows example_env example_rows). \<exists>c cs.
     predict example_env
       (open_image example_env (image_file_of (path_stem (example_file ''img_01_pts.txt'')) [''data'']))
       (x_col r, y_col r) 1 False = Inr (c # cs)"
  by (simp_all add: example_simps)

lemma map_prompt_table_rows:
  "map prompt (map (\<lambda>(k, m). table_row e img_file r k m) (enumerate 0 ms)) =
   replicate (length ms) (str_list [repr_coord e (x_col r), repr_coord e (y_col r)])"
proof -
  have "map prompt (map (\<lambda>(k, m). table_row e img_file r k m) (enumerate 0 ms)) =
        map (\<lambda>(k, m). str_list [repr_coord e (x_col r), repr_coord e (y_col r)]) (enumerate 0 ms)"
    by (simp add: table_row_def case_prod_unfold comp_def)
  also have "\<dots> = map (\<lambda>k. str_list [repr_coord e (x_col r), repr_coord e (y_col r)]) [0..<length ms]"
    by (rule map_enumerate_fst)
  also have "\<dots> = replicate (length ms) (str_list [repr_coord e (x_col r), repr_coord e (y_col r)])"
    by (simp add: map_replicate_const)
  finally show ?thesis .
qed

text \<open>Whenever a file is processed to its end, every row of its table carries the
  coordinates of the last row that \<open>iterrows\<close> yielded in its \<open>prompt\<close> column.\<close>

lemma table_prompts_are_last_row:
  assumes ex: "exists_file e (image_file_of (path_stem file) image_dir)"
    and csv: "read_csv e file = Inr rows"
    and ne: "rows \<noteq> []"
    and pr: "\<forall>r\<in>set (iterrows e rows). \<exists>c cs.
               predict e (open_image e (image_file_of (path_stem file) image_dir))
                 (x_col r, y_col r) 1 False = Inr (c # cs)"
  shows "\<exists>table st'.
           process_file e image_dir results_dir file st = (None, st') \<and>
           last (written st') =
             (joinpath (joinpath results_dir (path_stem (image_file_of (path_stem file) image_dir)))
                ''polygon_masks.csv'', Csv table) \<and>
           map prompt table =
             replicate (length rows)
               (str_list [repr_coord e (x_col (last (iterrows e rows))),
                          repr_coord e (y_col (last (iterrows e rows)))])"
proof -
  let ?img_file = "image_file_of (path_stem file) image_dir"
  let ?img = "open_image e ?img_file"
  let ?save_dir = "joinpath results_dir (path_stem ?img_file)"
  let ?ms = "map (retained e ?img) (iterrows e rows)"
  let ?pngs = "map (\<lambda>(k, m). png_entry ?save_dir k m) (enumerate 0 ?ms)"
  let ?table = "map (\<lambda>(k, m). table_row e ?img_file (last (iterrows e rows)) k m) (enumerate 0 ?ms)"
  let ?st' = "st\<lparr>row_var := Some (last (iterrows e rows)),
                written := written st @ ?pngs @ [(joinpath ?save_dir ''polygon_masks.csv'', Csv ?table)]\<rparr>"
  have run: "process_file e image_dir results_dir file st = (None, ?st')"
    using process_file_ok [OF ex csv ne pr, of results_dir st] by (simp add: Let_def)
  have l: "last (written ?st') = (joinpath ?save_dir ''polygon_masks.csv'', Csv ?table)"
    by simp
  have p: "map prompt ?table =
      replicate (length rows)
        (str_list [repr_coord e (x_col (last (iterrows e rows))),
                   repr_coord e (y_col (last (iterrows e rows)))])"
    using map_prompt_table_rows [of e ?img_file "last (iterrows e rows)" ?ms]
    by (simp add: length_iterrows)
  from run l p show ?thesis by blast
qed

section \<open>Runs on relabelled annotation files\<close>

lemma length_relabel: "length (relabel labels df) = length df"
  by (simp add: relabel_def)

lemma relabel_nth_xy:
  assumes "i < length df"
  shows "x_col (relabel labels df ! i) = x_col (df ! i)"
    and "y_col (relabel labels df ! i) = y_col (df ! i)"
  using assms by (simp_all add: relabel_def nth_enumerate_eq)

lemma relabel_env_simps:
  "exists_file (relabel_env labels e) = exists_file e"
  "open_image (relabel_env labels e) = open_image e"
  "iterrows_cell (relabel_env labels e) = iterrows_cell e"
  "predict (relabel_env labels e) = predict e"
  "tie_rank (relabel_env labels e) = tie_rank e"
  "get_polygon (relabel_env labels e) = get_polygon e"
  "repr_coord (relabel_env labels e) = repr_coord e"
  by (simp_all add: relabel_env_def)

lemma iterrows_relabel_env: "iterrows (relabel_env labels e) df = iterrows e df"
  by (simp add: iterrows_def relabel_env_simps)

lemma get_image_relabel_env:
  "get_image (relabel_env labels e) name image_dir = get_image e name image_dir"
  by (simp add: get_image_def relabel_env_simps Let_def)

lemma sort_candidates_cong: "tie_rank e' = tie_rank e \<Longrightarrow> sort_candidates e' cands = sort_candidates e cands"
  by (simp add: sort_candidates_def)

lemma iterrows_relabel_same_answer:
  assumes H: "\<forall>img df a b. predict e img (iterrows_cell e df a, iterrows_cell e df b) 1 False =
                predict e img (a, b) 1 False"
  shows "list_all2 (same_answer e img) (iterrows e df) (iterrows e (relabel labels df))"
proof -
  have "same_answer e img (iterrows e df ! i) (iterrows e (relabel labels df) ! i)"
    if i: "i < length df" for i
  proof -
    let ?df' = "relabel labels df"
    have i': "i < length ?df'" using i by (simp add: length_relabel)
    have l: "predict e img (x_col (iterrows e df ! i), y_col (iterrows e df ! i)) 1 False =
             predict e img (x_col (df ! i), y_col (df ! i)) 1 False"
      using i H by (simp add: iterrows_def)
    have "predict e img (x_col (iterrows e ?df' ! i), y_col (iterrows e ?df' ! i)) 1 False =
          predict e img (x_col (?df' ! i), y_col (?df' ! i)) 1 False"
      using i' H by (simp add: iterrows_def)
    also have "\<dots> = predict e img (x_col (df ! i), y_col (df ! i)) 1 False"
      using i by (simp add: relabel_nth_xy)
    finally show ?thesis using l by (simp add: same_answer_def)
  qed
  then show ?thesis
    by (simp add: list_all2_conv_all_nth length_iterrows length_relabel)
qed

lemma predict_loop_rel:
  assumes "list_all2 (same_answer e img) rs rs'" and "vars_rel v v'"
    and "predict e' = predict e" and "tie_rank e' = tie_rank e"
  shows "fst (predict_loop e' img rs' v') = fst (predict_loop e img rs v) \<and>
         vars_rel (snd (predict_loop e img rs v)) (snd (predict_loop e' img rs' v'))"
  using assms
proof (induction rs rs' arbitrary: v v' rule: list_all2_induct)
  case Nil
  then show ?case by simp
next
  case (Cons r rs r' rs')
  have pt: "predict e img (x_col r', y_col r') 1 False = predict e img (x_col r, y_col r) 1 False"
    using Cons.hyps(1) by (simp add: same_answer_def)
  have sc: "\<And>cands. sort_candidates e' cands = sort_candidates e cands"
    using Cons.prems(3) by (rule sort_candidates_cong)
  show ?case
  proof (cases "predict e img (x_col r, y_col r) 1 False")
    case (Inl err)
    then show ?thesis
      using Cons.prems pt by (simp add: vars_rel_def Let_def)
  next
    case (Inr cands)
    let ?s = "sort_candidates e cands"
    let ?u = "\<lambda>w p. w\<lparr>all_prompts := all_prompts w @ [p],
                     all_masks := all_masks w @ [map fst ?s],
                     all_scores := all_scores w @ [map snd ?s]\<rparr>"
    have rel: "vars_rel (?u (v\<lparr>row := Some r\<rparr>) (x_col r, y_col r))
                 (?u (v'\<lparr>row := Some r'\<rparr>) (x_col r', y_col r'))"
      using Cons.prems(1) by (simp add: vars_rel_def)
    show ?thesis
      using Cons.IH [OF rel Cons.prems(2) Cons.prems(3)] Inr Cons.prems(2) pt
      by (simp add: sc Let_def)
  qed
qed

lemma blank_prompts_png [simp]: "blank_prompts (p, Png r) = (p, Png r)"
  by (simp add: blank_prompts_def)

lemma blank_prompts_csv [simp]: "blank_prompts (p, Csv t) = (p, Csv (map blank_prompt t))"
  by (simp add: blank_prompts_def)

lemma save_loop_rel:
  assumes "(rw = None) = (rw' = None)" and "get_polygon e' = get_polygon e" and "save_rel s s'"
  shows "fst (save_loop e' save_dir img_file rw' i ms s') = fst (save_loop e save_dir img_file rw i ms s) \<and>
         save_rel (snd (save_loop e save_dir img_file rw i ms s))
           (snd (save_loop e' save_dir img_file rw' i ms s'))"
  using assms
proof (induction ms arbitrary: i s s')
  case Nil
  then show ?case by simp
next
  case (Cons m ms)
  show ?case
  proof (cases m)
    case Nil
    then show ?thesis using Cons.prems by simp
  next
    case (Cons m0 rest)
    let ?f = "(joinpath save_dir (fmt03d (i + 1) @ ''.png''), Png (scale_mask m0))"
    show ?thesis
    proof (cases rw)
      case None
      then have "rw' = None" using Cons.prems(1) by simp
      with None Cons Cons.prems(3) show ?thesis by (simp add: Let_def save_rel_def)
    next
      case (Some r)
      then obtain r' where r': "rw' = Some r'"
        using Cons.prems(1) by (cases rw') auto
      let ?rec = "\<lambda>q. \<lparr>image_file = path_name img_file,
                      prompt = q,
                      mask_id = fmt03d (i + 1),
                      polygon = str_list (map str_int (ravel (get_polygon e (scale_mask m0))))\<rparr>"
      let ?q = "str_list [repr_coord e (x_col r), repr_coord e (y_col r)]"
      let ?q' = "str_list [repr_coord e' (x_col r'), repr_coord e' (y_col r')]"
      let ?t = "s\<lparr>files := files s @ [?f], df_result := df_result s @ [?rec ?q]\<rparr>"
      let ?t' = "s'\<lparr>files := files s' @ [?f], df_result := df_result s' @ [?rec ?q']\<rparr>"
      have rel: "save_rel ?t ?t'"
        using Cons.prems(3) by (simp add: save_rel_def blank_prompt_def)
      show ?thesis
        using Cons.IH [OF Cons.prems(1) Cons.prems(2) rel, of "Suc i"] Cons.prems(2)
        by (simp add: Cons Some r' Let_def)
    qed
  qed
qed

lemma process_file_rel:
  assumes H: "\<forall>img df a b. predict e img (iterrows_cell e df a, iterrows_cell e df b) 1 False =
                predict e img (a, b) 1 False"
    and st: "state_rel st st'"
  shows "fst (process_file (relabel_env labels e) image_dir results_dir file st') =
           fst (process_file e image_dir results_dir file st) \<and>
         state_rel (snd (process_file e image_dir results_dir file st))
           (snd (process_file (relabel_env labels e) image_dir results_dir file st'))"
proof (cases "get_image e (path_stem file) image_dir")
  case None
  then show ?thesis
    using st by (simp add: process_file_def get_image_relabel_env)
next
  case (Some a)
  obtain img img_file where a: "a = (img, img_file)" by (cases a)
  note gi = Some [unfolded a]
  show ?thesis
  proof (cases "read_csv e file")
    case (Inl err)
    then have "read_csv (relabel_env labels e) file = Inl err"
      by (simp add: relabel_env_def)
    with Inl show ?thesis
      using st gi by (simp add: process_file_def get_image_relabel_env)
  next
    case (Inr rows)
    let ?e' = "relabel_env labels e"
    let ?rows' = "relabel (labels file) rows"
    let ?v0 = "\<lparr>row = row_var st, all_prompts = [], all_masks = [], all_scores = []\<rparr>"
    let ?v0' = "\<lparr>row = row_var st', all_prompts = [], all_masks = [], all_scores = []\<rparr>"
    have csv': "read_csv ?e' file = Inr ?rows'"
      by (simp add: relabel_env_def Inr)
    have v0: "vars_rel ?v0 ?v0'" using st by (simp add: vars_rel_def state_rel_def)
    obtain er v where pl: "predict_loop e img (iterrows e rows) ?v0 = (er, v)" by force
    obtain er' v' where pl': "predict_loop ?e' img (iterrows e ?rows') ?v0' = (er', v')" by force
    have rows_rel: "list_all2 (same_answer e img) (iterrows e rows) (iterrows e ?rows')"
      by (rule iterrows_relabel_same_answer [OF H])
    have "fst (predict_loop ?e' img (iterrows e ?rows') ?v0') =
            fst (predict_loop e img (iterrows e rows) ?v0) \<and>
          vars_rel (snd (predict_loop e img (iterrows e rows) ?v0))
            (snd (predict_loop ?e' img (iterrows e ?rows') ?v0'))"
      by (rule predict_loop_rel [OF rows_rel v0 relabel_env_simps(4) relabel_env_simps(5)])
    then have "er' = er \<and> vars_rel v v'"
      by (simp add: pl pl')
    then have er: "er' = er" and vr: "vars_rel v v'" by simp_all
    from vr have rowrel: "(row v = None) = (row v' = None)"
      and ap: "(all_prompts v' = []) = (all_prompts v = [])" and am: "all_masks v' = all_masks v"
      by (auto simp: vars_rel_def)
    have wr: "map blank_prompts (written st) = map blank_prompts (written st')"
      using st by (simp add: state_rel_def)
    show ?thesis
    proof (cases er)
      case (Some err)
      then show ?thesis
        using gi Inr csv' pl pl' er rowrel wr
        by (simp add: process_file_def get_image_relabel_env iterrows_relabel_env state_rel_def)
    next
      case None
      show ?thesis
      proof (cases "all_prompts v = []")
        case True
        then show ?thesis
          using gi Inr csv' pl pl' er rowrel wr None ap
          by (simp add: process_file_def get_image_relabel_env iterrows_relabel_env state_rel_def)
      next
        case False
        let ?save_dir = "joinpath results_dir (path_stem img_file)"
        let ?s0 = "\<lparr>files = written st, df_result = []\<rparr>"
        let ?s0' = "\<lparr>files = written st', df_result = []\<rparr>"
        have s0: "save_rel ?s0 ?s0'" using wr by (simp add: save_rel_def)
        obtain es s where sv: "save_loop e ?save_dir img_file (row v) 0 (all_masks v) ?s0 = (es, s)"
          by force
        obtain es' s' where sv': "save_loop ?e' ?save_dir img_file (row v') 0 (all_masks v) ?s0' = (es', s')"
          by force
        have "fst (save_loop ?e' ?save_dir img_file (row v') 0 (all_masks v) ?s0') =
                fst (save_loop e ?save_dir img_file (row v) 0 (all_masks v) ?s0) \<and>
              save_rel (snd (save_loop e ?save_dir img_file (row v) 0 (all_masks v) ?s0))
                (snd (save_loop ?e' ?save_dir img_file (row v') 0 (all_masks v) ?s0'))"
          by (rule save_loop_rel [OF rowrel relabel_env_simps(6) s0])
        then have es: "es' = es" and sr: "save_rel s s'"
          by (simp_all add: sv sv')
        show ?thesis
          using gi Inr csv' pl pl' er rowrel None ap am False sv sv' es sr
          by (cases es)
            (simp_all add: process_file_def get_image_relabel_env iterrows_relabel_env
              state_rel_def save_rel_def Let_def)
      qed
    qed
  qed
qed

lemma run_rel:
  assumes H: "\<forall>img df a b. predict e img (iterrows_cell e df a, iterrows_cell e df b) 1 False =
                predict e img (a, b) 1 False"
    and "state_rel st st'"
  shows "fst (run (relabel_env labels e) image_dir results_dir fs st') =
           fst (run e image_dir results_dir fs st) \<and>
         state_rel (snd (run e image_dir results_dir fs st))
           (snd (run (relabel_env labels e) image_dir results_dir fs st'))"
  using assms(2)
proof (induction fs arbitrary: st st')
  case Nil
  then show ?case by simp
next
  case (Cons f fs)
  obtain er st1 where p: "process_file e image_dir results_dir f st = (er, st1)" by force
  obtain er' st1' where p': "process_file (relabel_env labels e) image_dir results_dir f st' = (er', st1')"
    by force
  have "fst (process_file (relabel_env labels e) image_dir results_dir f st') =
          fst (process_file e image_dir results_dir f st) \<and>
        state_rel (snd (process_file e image_dir results_dir f st))
          (snd (process_file (relabel_env labels e) image_dir results_dir f st'))"
    by (rule process_file_rel [OF H Cons.prems])
  then have "er' = er \<and> state_rel st1 st1'"
    by (simp add: p p')
  then have er: "er' = er" and sr: "state_rel st1 st1'" by simp_all
  show ?case
  proof (cases er)
    case None
    then show ?thesis using Cons.IH [OF sr] p p' er by simp
  next
    case (Some err)
    then show ?thesis using p p' er sr by simp
  qed
qed

lemma state_rel_refl: "state_rel st st"
  by (simp add: state_rel_def)

lemma positive_label_only_simps:
  "exists_file (positive_label_only e) = exists_file e"
  "open_image (positive_label_only e) = open_image e"
  "read_csv (positive_label_only e) = read_csv e"
  "iterrows_cell (positive_label_only e) = iterrows_cell e"
  "predict (positive_label_only e) img pt 1 False = predict e img pt 1 False"
  "tie_rank (positive_label_only e) = tie_rank e"
  "get_polygon (positive_label_only e) = get_polygon e"
  "repr_coord (positive_label_only e) = repr_coord e"
  by (simp_all add: positive_label_only_def)

lemma predict_loop_positive_label_only:
  "predict_loop (positive_label_only e) img rs v = predict_loop e img rs v"
proof (induction rs arbitrary: v)
  case Nil
  then show ?case by simp
next
  case (Cons r rs)
  have sc: "\<And>cands. sort_candidates (positive_label_only e) cands = sort_candidates e cands"
    by (rule sort_candidates_cong) (rule positive_label_only_simps)
  show ?case
    by (cases "predict e img (x_col r, y_col r) 1 False")
      (simp_all add: positive_label_only_simps(5) sc Cons.IH Let_def)
qed

lemma save_loop_positive_label_only:
  "save_loop (positive_label_only e) save_dir img_file rw i ms s =
   save_loop e save_dir img_file rw i ms s"
proof (induction ms arbitrary: i s)
  case Nil
  then show ?case by simp
next
  case (Cons m ms)
  show ?case
  proof (cases m)
    case Nil
    then show ?thesis by simp
  next
    case m: (Cons m0 rest)
    show ?thesis
    proof (cases rw)
      case None
      then show ?thesis by (simp add: m Let_def)
    next
      case (Some r)
      show ?thesis
        using Cons.IH unfolding Some
        by (simp add: m positive_label_only_simps Let_def)
    qed
  qed
qed

lemma get_image_positive_label_only:
  "get_image (positive_label_only e) name image_dir = get_image e name image_dir"
  by (simp add: get_image_def positive_label_only_simps Let_def)

lemma iterrows_positive_label_only: "iterrows (positive_label_only e) df = iterrows e df"
  by (simp add: iterrows_def positive_label_only_simps)

lemma process_file_positive_label_only:
  "process_file (positive_label_only e) image_dir results_dir file st =
   process_file e image_dir results_dir file st"
  by (simp add: process_file_def get_image_positive_label_only iterrows_positive_label_only
      positive_label_only_simps predict_loop_positive_label_only save_loop_positive_label_only
      Let_def split: option.split sum.split prod.split)

lemma run_positive_label_only:
  "run (positive_label_only e) image_dir results_dir fs st = run e image_dir results_dir fs st"
proof (induction fs arbitrary: st)
  case Nil
  then show ?case by simp
next
  case (Cons f fs)
  obtain er st1 where p: "process_file e image_dir results_dir f st = (er, st1)" by force
  show ?case
    by (cases er) (simp_all add: process_file_positive_label_only p Cons.IH)
qed

lemmas pandas_simps =
  pandas_env_def cell_rows_def float_frame_def to_float_def number_of_def is_text_def
  relabel_env_def relabel_def float_labels_def

lemma number_of_to_float: "number_of (to_float v) = number_of v"
  by (cases v) (simp_all add: number_of_def to_float_def)

lemma pandas_env_reads_numbers:
  "\<forall>img df a b. predict pandas_env img (iterrows_cell pandas_env df a, iterrows_cell pandas_env df b) 1 False =
     predict pandas_env img (a, b) 1 False"
  by (simp add: pandas_env_def number_of_to_float split: option.split)

lemma predict_loop_raises:
  assumes "\<forall>r\<in>set good. \<exists>cands. predict e img (x_col r, y_col r) 1 False = Inr cands"
    and "predict e img (x_col bad, y_col bad) 1 False = Inl err"
  shows "fst (predict_loop e img (good @ bad # later) v) = Some err"
  using assms
proof (induction good arbitrary: v)
  case Nil
  then show ?case by (simp add: Let_def)
next
  case (Cons r rs)
  then obtain cands where c: "predict e img (x_col r, y_col r) 1 False = Inr cands"
    by auto
  have rest: "\<forall>r\<in>set rs. \<exists>cands. predict e img (x_col r, y_col r) 1 False = Inr cands"
    using Cons.prems(1) by simp
  show ?case
    using Cons.IH [OF rest Cons.prems(2)] by (simp add: c Let_def)
qed

section \<open>The claims\<close>

text \<open>
  Claim C1 (row \<open>i\<close> of the table records the coordinates of point \<open>i\<close>). The saving loop
  reads the variable \<open>row\<close>, which the prediction loop left bound to the last annotation
  row, so every row of the table gets the coordinates of the last point. On the example file
  with the points (10, 10) and (50, 50) the first row of \<^verbatim>\<open>polygon_masks.csv\<close> has the prompt
  \<^verbatim>\<open>[50, 50]\<close>, not \<^verbatim>\<open>[10, 10]\<close>.
\<close>

theorem prompt_column_repeats_last_point:
  "process_file example_env [''data''] [''results''] (example_file ''img_01_pts.txt'') initial_state =
     (None,
      \<lparr>row_var = Some \<lparr>x_col = 50, y_col = 50, label_col = ''b''\<rparr>,
       written =
         [([''results'', ''img_01'', ''001.png''], Png [[255, 0], [0, 0]]),
          ([''results'', ''img_01'', ''002.png''], Png [[0, 0], [0, 255]]),
          ([''results'', ''img_01'', ''polygon_masks.csv''],
           Csv [\<lparr>image_file = ''img_01.jpg'', prompt = ''[50, 50]'',
                 mask_id = ''001'', polygon = ''[0, 0]''\<rparr>,
                \<lparr>image_file = ''img_01.jpg'', prompt = ''[50, 50]'',
                 mask_id = ''002'', polygon = ''[1, 1]''\<rparr>])]\<rparr>)"
  by (simp add: example_simps)

text \<open>
  Claim C2, as stated, at two candidates of equal score. The order in which \<^verbatim>\<open>np.argsort\<close>
  returns their indices is not fixed. When it returns them in their original order, the
  notebook, which reverses the order, retains the second candidate and not the first; when it
  returns them in the opposite order, the first is retained.
\<close>

theorem tie_order_is_not_first:
  "hd (sort_candidates example_env [([[True]], 5), ([[False]], 5)]) = [([[True]], 5), ([[False]], 5)] ! 1 \<and>
   hd (sort_candidates example_env [([[True]], 5), ([[False]], 5)]) \<noteq> [([[True]], 5), ([[False]], 5)] ! 0 \<and>
   hd (sort_candidates (example_env\<lparr>tie_rank := (\<lambda>scores i. length scores - i)\<rparr>)
         [([[True]], 5), ([[False]], 5)]) = [([[True]], 5), ([[False]], 5)] ! 0"
  by (simp add: sort_candidates_def argsort_def example_env_def)

text \<open>
  Claim C2, amended: the mask retained for a prompt, the first after the notebook's sort, is a
  candidate of maximum score, whatever order the sort gives the indices of equal scores. Which
  of several candidates of maximum score is retained is decided by that order, which the
  notebook does not fix.
\<close>

theorem retained_mask_has_maximum_score:
  fixes cands :: "(mask_grid \<times> 's::linorder) list"
  assumes "cands \<noteq> []"
  shows "\<exists>j<length cands.
           hd (sort_candidates e cands) = cands ! j \<and>
           (\<forall>i<length cands. snd (cands ! i) \<le> snd (cands ! j))"
proof -
  let ?scores = "map snd cands"
  let ?j = "last (argsort (tie_rank e) ?scores)"
  have ne: "?scores \<noteq> []" using assms by simp
  have l_ne: "argsort (tie_rank e) ?scores \<noteq> []"
    using ne length_argsort [of "tie_rank e" ?scores] by auto
  have j: "?j < length cands" using argsort_last_maximum(1) [OF ne, of "tie_rank e"] by simp
  have hdj: "hd (sort_candidates e cands) = cands ! ?j"
    using l_ne by (simp add: sort_candidates_def Let_def hd_map hd_rev)
  have mx: "\<forall>i<length cands. snd (cands ! i) \<le> snd (cands ! ?j)"
    using argsort_last_maximum(2) [OF ne, of "tie_rank e"] j by simp
  from j hdj mx show ?thesis by blast
qed

theorem retained_mask_has_maximum_score_witness:
  "\<exists>j<length [([[True]], 3::int), ([[False]], 7), ([[True, True]], 7)].
     hd (sort_candidates example_env [([[True]], 3::int), ([[False]], 7), ([[True, True]], 7)]) =
       [([[True]], 3::int), ([[False]], 7), ([[True, True]], 7)] ! j \<and>
     (\<forall>i<length [([[True]], 3::int), ([[False]], 7), ([[True, True]], 7)].
        snd ([([[True]], 3::int), ([[False]], 7), ([[True, True]], 7)] ! i)
          \<le> snd ([([[True]], 3::int), ([[False]], 7), ([[True, True]], 7)] ! j))"
  by (rule retained_mask_has_maximum_score) simp

text \<open>
  Claim C3, as stated, at an annotation file without rows whose image resolves: the display
  of the results raises \<^verbatim>\<open>ValueError\<close> before anything is saved, so no table with zero rows
  is written.
\<close>

theorem empty_annotation_file_writes_nothing:
  "process_file example_env [''data''] [''results''] (example_file ''img_04_pts.txt'') initial_state =
     (Some ValueError, \<lparr>row_var = None, written = []\<rparr>)"
  by (simp add: example_simps)

text \<open>
  Claim C3, amended: for an annotation file with \<open>N \<ge> 1\<close> rows whose image resolves, and a
  predictor that returns at least one candidate for every point, the notebook writes exactly
  \<open>N\<close> mask rasters, under \<open>N\<close> different names \<^verbatim>\<open>001.png\<close>, \<^verbatim>\<open>002.png\<close>, ... in the order of
  the rows, and then one table with exactly \<open>N\<close> rows whose \<open>mask_id\<close> column runs over the
  same numbers, 1-based and padded with zeros to three digits.
\<close>

theorem one_mask_file_and_one_table_row_per_point:
  assumes ex: "exists_file e (image_file_of (path_stem file) image_dir)"
    and csv: "read_csv e file = Inr rows"
    and ne: "rows \<noteq> []"
    and pr: "\<forall>r\<in>set (iterrows e rows). \<exists>c cs.
               predict e (open_image e (image_file_of (path_stem file) image_dir))
                 (x_col r, y_col r) 1 False = Inr (c # cs)"
  shows "\<exists>pngs table st'.
           process_file e image_dir results_dir file st = (None, st') \<and>
           written st' = written st @ pngs @
             [(joinpath (joinpath results_dir (path_stem (image_file_of (path_stem file) image_dir)))
                 ''polygon_masks.csv'', Csv table)] \<and>
           length pngs = length rows \<and> length table = length rows \<and>
           map fst pngs =
             map (\<lambda>k. joinpath
                        (joinpath results_dir (path_stem (image_file_of (path_stem file) image_dir)))
                        (fmt03d k @ ''.png''))
               [1..<Suc (length rows)] \<and>
           list_all is_png (map snd pngs) \<and> distinct (map fst pngs) \<and>
           map mask_id table = map fmt03d [1..<Suc (length rows)]"
proof -
  let ?img_file = "image_file_of (path_stem file) image_dir"
  let ?img = "open_image e ?img_file"
  let ?save_dir = "joinpath results_dir (path_stem ?img_file)"
  let ?ms = "map (retained e ?img) (iterrows e rows)"
  let ?pngs = "map (\<lambda>(k, m). png_entry ?save_dir k m) (enumerate 0 ?ms)"
  let ?table = "map (\<lambda>(k, m). table_row e ?img_file (last (iterrows e rows)) k m) (enumerate 0 ?ms)"
  let ?st' = "st\<lparr>row_var := Some (last (iterrows e rows)),
                written := written st @ ?pngs @ [(joinpath ?save_dir ''polygon_masks.csv'', Csv ?table)]\<rparr>"
  have run: "process_file e image_dir results_dir file st = (None, ?st')"
    using process_file_ok [OF ex csv ne pr, of results_dir st] by (simp add: Let_def)
  have w: "written ?st' = written st @ ?pngs @ [(joinpath ?save_dir ''polygon_masks.csv'', Csv ?table)]"
    by simp
  have lp: "length ?pngs = length rows" and lt: "length ?table = length rows"
    by (simp_all add: length_iterrows)
  have names: "map fst ?pngs =
      map (\<lambda>k. joinpath ?save_dir (fmt03d k @ ''.png'')) [1..<Suc (length rows)]"
    using map_fst_png_entries [of ?save_dir ?ms] by (simp add: length_iterrows)
  have pngs: "list_all is_png (map snd ?pngs)"
    by (rule list_all_is_png_entries)
  have dist: "distinct (map fst ?pngs)"
    unfolding names by (rule distinct_png_names)
  have ids: "map mask_id ?table = map fmt03d [1..<Suc (length rows)]"
    using map_mask_id_table_rows [of e ?img_file "last (iterrows e rows)" ?ms]
    by (simp add: length_iterrows)
  from run w lp lt names pngs dist ids show ?thesis by blast
qed

theorem one_mask_file_and_one_table_row_per_point_witness:
  "\<exists>pngs table st'.
     process_file example_env [''data''] [''results''] (example_file ''img_01_pts.txt'') initial_state
       = (None, st') \<and>
     written st' = written (initial_state :: int run_state) @ pngs @
       [(joinpath (joinpath [''results'']
            (path_stem (image_file_of (path_stem (example_file ''img_01_pts.txt'')) [''data''])))
          ''polygon_masks.csv'', Csv table)] \<and>
     length pngs = length example_rows \<and> length table = length example_rows \<and>
     map fst pngs =
       map (\<lambda>k. joinpath
                  (joinpath [''results'']
                     (path_stem (image_file_of (path_stem (example_file ''img_01_pts.txt'')) [''data''])))
                  (fmt03d k @ ''.png''))
         [1..<Suc (length example_rows)] \<and>
     list_all is_png (map snd pngs) \<and> distinct (map fst pngs) \<and>
     map mask_id table = map fmt03d [1..<Suc (length example_rows)]"
  by (rule one_mask_file_and_one_table_row_per_point [OF example_hyps])

text \<open>
  Claim C4: for an annotation stem that ends in an underscore and a last token without
  underscore, the image name is the stem without that underscore and token, and the resolver
  looks up this name with the extension \<^verbatim>\<open>.jpg\<close> in the image directory.
\<close>

theorem get_image_drops_last_token:
  assumes "CHR ''_'' \<notin> set suffix"
  shows "image_name_of (name @ ''_'' @ suffix) = name \<and>
         image_file_of (name @ ''_'' @ suffix) image_dir = joinpath image_dir (name @ ''.jpg'') \<and>
         get_image e (name @ ''_'' @ suffix) image_dir =
           (if exists_file e (joinpath image_dir (name @ ''.jpg''))
            then Some (open_image e (joinpath image_dir (name @ ''.jpg'')),
                       joinpath image_dir (name @ ''.jpg''))
            else None)"
  using assms by (simp add: image_name_of_suffix image_file_of_def get_image_def Let_def)

theorem get_image_drops_last_token_witness:
  "image_name_of ''S_T_U_SUFFIX'' = ''S_T_U'' \<and>
   image_file_of ''S_T_U_SUFFIX'' [''data''] = [''data'', ''S_T_U.jpg''] \<and>
   get_image example_env ''S_T_U_SUFFIX'' [''data''] = None"
proof -
  have h: "CHR ''_'' \<notin> set ''SUFFIX''" by simp
  show ?thesis
    using get_image_drops_last_token [OF h, of "''S_T_U''" "[''data'']" example_env]
    by (simp add: joinpath_def example_env_def)
qed

text \<open>
  Claim C5: when the expected image file is absent, the resolver returns the not-found result,
  the body of the loop ends without exception and without writing anything, and the run goes
  on with the next annotation file.
\<close>

theorem missing_image_skips_file:
  assumes "\<not> exists_file e (image_file_of (path_stem file) image_dir)"
  shows "get_image e (path_stem file) image_dir = None \<and>
         process_file e image_dir results_dir file st = (None, st) \<and>
         run e image_dir results_dir (file # rest) st = run e image_dir results_dir rest st"
  using assms by (simp add: get_image_def process_file_def Let_def)

theorem missing_image_skips_file_witness:
  "get_image example_env (path_stem (example_file ''img_02_pts.txt'')) [''data''] = None \<and>
   process_file example_env [''data''] [''results''] (example_file ''img_02_pts.txt'') initial_state =
     (None, initial_state) \<and>
   run example_env [''data''] [''results'']
       (example_file ''img_02_pts.txt'' # [example_file ''img_04_pts.txt'']) initial_state =
     run example_env [''data''] [''results''] [example_file ''img_04_pts.txt''] initial_state"
proof -
  have h: "\<not> exists_file example_env (image_file_of (path_stem (example_file ''img_02_pts.txt'')) [''data''])"
    by (simp add: example_simps)
  show ?thesis by (rule missing_image_skips_file [OF h])
qed

text \<open>
  Claim C6, as stated, at the annotation file with the points (10, 10, a) and (50, 50, b) and
  at the same file with the labels 0.5 and 1.5. With the float labels the frame has the
  common dtype \<^verbatim>\<open>float64\<close>, the rows hold the coordinates as floats, the prompts are issued
  with float cells, and the \<open>prompt\<close> column of the table reads \<^verbatim>\<open>[50.0, 50.0]\<close> instead of
  \<^verbatim>\<open>[50, 50]\<close>: the label column does influence what is computed and written.
\<close>

theorem float_labels_change_prompt_text:
  "run pandas_env [''data''] [''results''] [example_file ''img_01_pts.txt''] initial_state =
     (None,
      \<lparr>row_var = Some \<lparr>x_col = IntCell 50, y_col = IntCell 50, label_col = ''b''\<rparr>,
       written =
         [([''results'', ''img_01'', ''001.png''], Png [[255, 0], [0, 0]]),
          ([''results'', ''img_01'', ''002.png''], Png [[0, 0], [0, 255]]),
          ([''results'', ''img_01'', ''polygon_masks.csv''],
           Csv [\<lparr>image_file = ''img_01.jpg'', prompt = ''[50, 50]'',
                 mask_id = ''001'', polygon = ''[0, 0]''\<rparr>,
                \<lparr>image_file = ''img_01.jpg'', prompt = ''[50, 50]'',
                 mask_id = ''002'', polygon = ''[1, 1]''\<rparr>])]\<rparr>) \<and>
   run (relabel_env float_labels pandas_env) [''data''] [''results'']
       [example_file ''img_01_pts.txt''] initial_state =
     (None,
      \<lparr>row_var = Some \<lparr>x_col = FloatCell 50, y_col = FloatCell 50, label_col = ''1.5''\<rparr>,
       written =
         [([''results'', ''img_01'', ''001.png''], Png [[255, 0], [0, 0]]),
          ([''results'', ''img_01'', ''002.png''], Png [[0, 0], [0, 255]]),
          ([''results'', ''img_01'', ''polygon_masks.csv''],
           Csv [\<lparr>image_file = ''img_01.jpg'', prompt = ''[50.0, 50.0]'',
                 mask_id = ''001'', polygon = ''[0, 0]''\<rparr>,
                \<lparr>image_file = ''img_01.jpg'', prompt = ''[50.0, 50.0]'',
                 mask_id = ''002'', polygon = ''[1, 1]''\<rparr>])]\<rparr>)"
  by (simp add: example_simps pandas_simps)

text \<open>
  Claim C6, amended. The predictor is asked with the label 1 for every point, whatever the
  label column holds: a predictor that answers every request as it answers the one with label
  1 gives the same run. For a predictor that reads the coordinates as numbers, whatever dtype
  the rows hold them in, two runs on annotation files that differ in the label column only
  end in the same way (both without exception, or both with the same one) and write the same
  mask files and the same tables up to the text of the \<open>prompt\<close> column.
\<close>

theorem label_column_changes_prompt_text_only:
  assumes "\<forall>img df a b. predict e img (iterrows_cell e df a, iterrows_cell e df b) 1 False =
             predict e img (a, b) 1 False"
  shows "fst (run (relabel_env labels e) image_dir results_dir fs st) =
           fst (run e image_dir results_dir fs st) \<and>
         map blank_prompts (written (snd (run (relabel_env labels e) image_dir results_dir fs st))) =
           map blank_prompts (written (snd (run e image_dir results_dir fs st))) \<and>
         run (positive_label_only e) image_dir results_dir fs st = run e image_dir results_dir fs st"
proof -
  have "fst (run (relabel_env labels e) image_dir results_dir fs st) =
          fst (run e image_dir results_dir fs st) \<and>
        state_rel (snd (run e image_dir results_dir fs st))
          (snd (run (relabel_env labels e) image_dir results_dir fs st))"
    by (rule run_rel [OF assms state_rel_refl])
  then show ?thesis by (simp add: state_rel_def run_positive_label_only)
qed

theorem label_column_changes_prompt_text_only_witness:
  "fst (run (relabel_env float_labels pandas_env) [''data''] [''results'']
          [example_file ''img_01_pts.txt''] initial_state) =
     fst (run pandas_env [''data''] [''results''] [example_file ''img_01_pts.txt''] initial_state) \<and>
   map blank_prompts
     (written (snd (run (relabel_env float_labels pandas_env) [''data''] [''results'']
                      [example_file ''img_01_pts.txt''] initial_state))) =
     map blank_prompts
       (written (snd (run pandas_env [''data''] [''results''] [example_file ''img_01_pts.txt'']
                        initial_state))) \<and>
   run (positive_label_only pandas_env) [''data''] [''results''] [example_file ''img_01_pts.txt'']
       initial_state =
     run pandas_env [''data''] [''results''] [example_file ''img_01_pts.txt''] initial_state"
  by (rule label_column_changes_prompt_text_only [OF pandas_env_reads_numbers])

text \<open>
  Claim C7: the retained mask \<open>m\<close> of the point with 1-based ordinal \<open>k + 1\<close> is the first of
  the predictor's candidates for that point as the notebook orders them. The raster saved for
  it is a grid of \<^verbatim>\<open>uint8\<close> pixels of the same shape, with the pixel 255 exactly where the mask
  is true and 0 elsewhere; it is written to the file named by the ordinal padded to three
  digits with the extension \<^verbatim>\<open>.png\<close>, inside the directory of the results named after the
  stem of the image file.
\<close>

theorem retained_mask_saved_as_0_255_png:
  assumes ex: "exists_file e (image_file_of (path_stem file) image_dir)"
    and csv: "read_csv e file = Inr rows"
    and ne: "rows \<noteq> []"
    and pr: "\<forall>r\<in>set (iterrows e rows). \<exists>c cs.
               predict e (open_image e (image_file_of (path_stem file) image_dir))
                 (x_col r, y_col r) 1 False = Inr (c # cs)"
  shows "\<exists>st'. process_file e image_dir results_dir file st = (None, st') \<and>
           (\<forall>k<length rows. \<exists>cands m rst.
              predict e (open_image e (image_file_of (path_stem file) image_dir))
                (x_col (iterrows e rows ! k), y_col (iterrows e rows ! k)) 1 False = Inr cands \<and>
              m = fst (hd (sort_candidates e cands)) \<and>
              written st' ! (length (written st) + k) =
                (joinpath (joinpath results_dir (path_stem (image_file_of (path_stem file) image_dir)))
                   (fmt03d (Suc k) @ ''.png''),
                 Png rst) \<and>
              length rst = length m \<and>
              (\<forall>y<length m. length (rst ! y) = length (m ! y) \<and>
                 (\<forall>x<length (m ! y). rst ! y ! x = (if m ! y ! x then 255 else 0))) \<and>
              (\<forall>line\<in>set rst. \<forall>px\<in>set line. px = 0 \<or> px = 255))"
proof -
  let ?img_file = "image_file_of (path_stem file) image_dir"
  let ?img = "open_image e ?img_file"
  let ?save_dir = "joinpath results_dir (path_stem ?img_file)"
  let ?rows = "iterrows e rows"
  let ?ms = "map (retained e ?img) ?rows"
  let ?pngs = "map (\<lambda>(k, m). png_entry ?save_dir k m) (enumerate 0 ?ms)"
  let ?table = "map (\<lambda>(k, m). table_row e ?img_file (last ?rows) k m) (enumerate 0 ?ms)"
  let ?st' = "st\<lparr>row_var := Some (last ?rows),
                written := written st @ ?pngs @ [(joinpath ?save_dir ''polygon_masks.csv'', Csv ?table)]\<rparr>"
  have run: "process_file e image_dir results_dir file st = (None, ?st')"
    using process_file_ok [OF ex csv ne pr, of results_dir st] by (simp add: Let_def)
  have each: "\<exists>cands m rst.
      predict e ?img (x_col (?rows ! k), y_col (?rows ! k)) 1 False = Inr cands \<and>
      m = fst (hd (sort_candidates e cands)) \<and>
      written ?st' ! (length (written st) + k) =
        (joinpath ?save_dir (fmt03d (Suc k) @ ''.png''), Png rst) \<and>
      length rst = length m \<and>
      (\<forall>y<length m. length (rst ! y) = length (m ! y) \<and>
         (\<forall>x<length (m ! y). rst ! y ! x = (if m ! y ! x then 255 else 0))) \<and>
      (\<forall>line\<in>set rst. \<forall>px\<in>set line. px = 0 \<or> px = 255)"
    if k: "k < length rows" for k
  proof -
    from k have k': "k < length ?rows" by (simp add: length_iterrows)
    then have "?rows ! k \<in> set ?rows" by simp
    with pr obtain c cs where
      p: "predict e ?img (x_col (?rows ! k), y_col (?rows ! k)) 1 False = Inr (c # cs)"
      by blast
    let ?m = "fst (hd (sort_candidates e (c # cs)))"
    have ne_s: "sort_candidates e (c # cs) \<noteq> []" by (rule sort_candidates_not_Nil)
    have hdr: "hd (retained e ?img (?rows ! k)) = ?m"
      using ne_s by (simp add: retained_def ranked_def p hd_map)
    have "written ?st' ! (length (written st) + k) = ?pngs ! k"
      using k' by (simp add: nth_append)
    also have "\<dots> = png_entry ?save_dir k (?ms ! k)"
      using k' by (simp add: nth_enumerate_eq)
    also have "\<dots> = (joinpath ?save_dir (fmt03d (Suc k) @ ''.png''), Png (scale_mask ?m))"
      using k' by (simp add: png_entry_def hdr)
    finally have wr: "written ?st' ! (length (written st) + k) =
        (joinpath ?save_dir (fmt03d (Suc k) @ ''.png''), Png (scale_mask ?m))" .
    have len: "length (scale_mask ?m) = length ?m" by (rule length_scale_mask)
    have pix: "\<forall>y<length ?m. length (scale_mask ?m ! y) = length (?m ! y) \<and>
         (\<forall>x<length (?m ! y). scale_mask ?m ! y ! x = (if ?m ! y ! x then 255 else 0))"
      by (simp add: length_scale_mask_row scale_mask_nth)
    have rng: "\<forall>line\<in>set (scale_mask ?m). \<forall>px\<in>set line. px = 0 \<or> px = 255"
      using scale_mask_pixels by blast
    from p wr len pix rng show ?thesis by blast
  qed
  from run each show ?thesis by blast
qed

theorem retained_mask_saved_as_0_255_png_witness:
  "\<exists>st'. process_file example_env [''data''] [''results''] (example_file ''img_01_pts.txt'') initial_state
            = (None, st') \<and>
     (\<forall>k<length example_rows. \<exists>cands m rst.
        predict example_env
          (open_image example_env (image_file_of (path_stem (example_file ''img_01_pts.txt'')) [''data'']))
          (x_col (iterrows example_env example_rows ! k), y_col (iterrows example_env example_rows ! k))
          1 False = Inr cands \<and>
        m = fst (hd (sort_candidates example_env cands)) \<and>
        written st' ! (length (written (initial_state :: int run_state)) + k) =
          (joinpath (joinpath [''results'']
               (path_stem (image_file_of (path_stem (example_file ''img_01_pts.txt'')) [''data''])))
             (fmt03d (Suc k) @ ''.png''),
           Png rst) \<and>
        length rst = length m \<and>
        (\<forall>y<length m. length (rst ! y) = length (m ! y) \<and>
           (\<forall>x<length (m ! y). rst ! y ! x = (if m ! y ! x then 255 else 0))) \<and>
        (\<forall>line\<in>set rst. \<forall>px\<in>set line. px = 0 \<or> px = 255))"
  by (rule retained_mask_saved_as_0_255_png [OF example_hyps])

text \<open>
  Claim C8: the text that the notebook writes into the polygon column, the Python \<^verbatim>\<open>str\<close> of
  the flattened list of integer coordinates, reads back as the same sequence of coordinates.
\<close>

theorem polygon_text_round_trip: "parse_int_list (str_list (map str_int cs)) = Some cs"
proof (cases cs)
  case Nil
  then show ?thesis by (simp add: parse_int_list_def str_list_def)
next
  case (Cons c cs')
  let ?ts = "map str_int cs"
  have ne: "?ts \<noteq> []" using Cons by simp
  have nocomma: "\<forall>t\<in>set ?ts. CHR '','' \<notin> set t" by (auto simp: str_int_no_comma)
  have inner: "join_py '', '' ?ts \<noteq> []"
    by (rule join_py_not_Nil [OF ne]) (simp add: Cons str_int_not_Nil)
  have sp: "split_py CHR '','' (join_py '', '' ?ts) = hd ?ts # map ((#) CHR '' '') (tl ?ts)"
    by (rule split_py_join_comma [OF ne nocomma])
  have toks: "map (\<lambda>t. parse_int (lstrip t)) (hd ?ts # map ((#) CHR '' '') (tl ?ts)) = map Some cs"
    by (simp add: Cons lstrip_str_int lstrip_space_str_int parse_int_str_int comp_def)
  have "parse_int_list (str_list ?ts) =
          those (map (\<lambda>t. parse_int (lstrip t)) (split_py CHR '','' (join_py '', '' ?ts)))"
    using inner by (simp add: parse_int_list_def str_list_def Let_def)
  also have "\<dots> = those (map Some cs)"
    by (simp only: sp toks)
  finally show ?thesis by (simp only: those_map_Some)
qed

text \<open>
  Claim C9, as stated, at an annotation file with the row \<^verbatim>\<open>abc 10 a\<close>: \<^verbatim>\<open>pd.read_csv\<close>, called
  without \<^verbatim>\<open>dtype\<close>, raises nothing and returns the row with the text \<^verbatim>\<open>abc\<close> in its column
  \<open>x\<close>. No parse failure stops the notebook at the reading; it goes on to the prediction loop,
  where the predictor is asked with the text and raises.
\<close>

theorem malformed_row_is_read_as_text:
  "read_csv pandas_env (example_file ''img_06_pts.txt'') =
     Inr [\<lparr>x_col = TextCell ''abc'', y_col = IntCell 10, label_col = ''a''\<rparr>] \<and>
   process_file pandas_env [''data''] [''results''] (example_file ''img_06_pts.txt'') initial_state =
     (Some (PredictError ''TypeError''),
      \<lparr>row_var = Some \<lparr>x_col = TextCell ''abc'', y_col = IntCell 10, label_col = ''a''\<rparr>,
       written = []\<rparr>)"
  by (simp add: example_simps pandas_simps)

text \<open>
  Claim C9, amended: nothing in the notebook catches an exception. For an annotation file
  whose image resolves, an exception that \<^verbatim>\<open>pd.read_csv\<close> raises on the file, or that the
  predictor raises on one of its rows, ends the run at that file, with nothing written for
  the file, whatever annotation files follow.
\<close>

theorem exception_ends_run_at_file:
  assumes ex: "exists_file e (image_file_of (path_stem file) image_dir)"
    and fail: "read_csv e file = Inl err \<or>
               (\<exists>rows good bad later.
                  read_csv e file = Inr rows \<and> iterrows e rows = good @ bad # later \<and>
                  (\<forall>r\<in>set good. \<exists>cands.
                     predict e (open_image e (image_file_of (path_stem file) image_dir))
                       (x_col r, y_col r) 1 False = Inr cands) \<and>
                  predict e (open_image e (image_file_of (path_stem file) image_dir))
                    (x_col bad, y_col bad) 1 False = Inl err)"
  shows "fst (run e image_dir results_dir (file # rest) st) = Some err \<and>
         written (snd (run e image_dir results_dir (file # rest) st)) = written st"
proof -
  let ?img_file = "image_file_of (path_stem file) image_dir"
  let ?img = "open_image e ?img_file"
  have gi: "get_image e (path_stem file) image_dir = Some (?img, ?img_file)"
    using ex by (simp add: get_image_def Let_def)
  from fail show ?thesis
  proof
    assume "read_csv e file = Inl err"
    then show ?thesis by (simp add: process_file_def gi)
  next
    assume "\<exists>rows good bad later.
              read_csv e file = Inr rows \<and> iterrows e rows = good @ bad # later \<and>
              (\<forall>r\<in>set good. \<exists>cands. predict e ?img (x_col r, y_col r) 1 False = Inr cands) \<and>
              predict e ?img (x_col bad, y_col bad) 1 False = Inl err"
    then obtain rows good bad later where csv: "read_csv e file = Inr rows"
      and it: "iterrows e rows = good @ bad # later"
      and good: "\<forall>r\<in>set good. \<exists>cands. predict e ?img (x_col r, y_col r) 1 False = Inr cands"
      and bad: "predict e ?img (x_col bad, y_col bad) 1 False = Inl err"
      by blast
    let ?v0 = "\<lparr>row = row_var st, all_prompts = [], all_masks = [], all_scores = []\<rparr>"
    obtain er v where pl: "predict_loop e ?img (good @ bad # later) ?v0 = (er, v)" by force
    have "fst (predict_loop e ?img (good @ bad # later) ?v0) = Some err"
      by (rule predict_loop_raises [OF good bad])
    then have er: "er = Some err" by (simp add: pl)
    show ?thesis by (simp add: process_file_def gi csv it pl er)
  qed
qed

theorem exception_ends_run_at_file_witness:
  "fst (run pandas_env [''data''] [''results'']
          (example_file ''img_06_pts.txt'' # [example_file ''img_01_pts.txt'']) initial_state) =
     Some (PredictError ''TypeError'') \<and>
   written (snd (run pandas_env [''data''] [''results'']
                   (example_file ''img_06_pts.txt'' # [example_file ''img_01_pts.txt'']) initial_state)) =
     written (initial_state :: cell run_state)"
proof -
  have ex: "exists_file pandas_env (image_file_of (path_stem (example_file ''img_06_pts.txt'')) [''data''])"
    by (simp add: example_simps pandas_simps)
  have csv: "read_csv pandas_env (example_file ''img_06_pts.txt'') =
      Inr [\<lparr>x_col = TextCell ''abc'', y_col = IntCell 10, label_col = ''a''\<rparr>]"
    by (simp add: example_simps pandas_simps)
  have it: "iterrows pandas_env [\<lparr>x_col = TextCell ''abc'', y_col = IntCell 10, label_col = ''a''\<rparr>] =
      [] @ \<lparr>x_col = TextCell ''abc'', y_col = IntCell 10, label_col = ''a''\<rparr> # []"
    by (simp add: example_simps pandas_simps)
  have bad: "predict pandas_env
      (open_image pandas_env (image_file_of (path_stem (example_file ''img_06_pts.txt'')) [''data'']))
      (x_col \<lparr>x_col = TextCell ''abc'', y_col = IntCell 10, label_col = ''a''\<rparr>,
       y_col \<lparr>x_col = TextCell ''abc'', y_col = IntCell 10, label_col = ''a''\<rparr>) 1 False =
      Inl (PredictError ''TypeError'')"
    by (simp add: pandas_simps)
  have fail: "read_csv pandas_env (example_file ''img_06_pts.txt'') = Inl (PredictError ''TypeError'') \<or>
      (\<exists>rows good bad later.
         read_csv pandas_env (example_file ''img_06_pts.txt'') = Inr rows \<and>
         iterrows pandas_env rows = good @ bad # later \<and>
         (\<forall>r\<in>set good. \<exists>cands.
            predict pandas_env
              (open_image pandas_env (image_file_of (path_stem (example_file ''img_06_pts.txt'')) [''data'']))
              (x_col r, y_col r) 1 False = Inr cands) \<and>
         predict pandas_env
           (open_image pandas_env (image_file_of (path_stem (example_file ''img_06_pts.txt'')) [''data'']))
           (x_col bad, y_col bad) 1 False = Inl (PredictError ''TypeError''))"
    using csv it bad by (intro disjI2 exI conjI) (assumption, assumption, simp, assumption)
  show ?thesis by (rule exception_ends_run_at_file [OF ex fail])
qed

text \<open>
  Claim C10: for an annotation stem without underscore the image name is empty and the
  resolver looks up \<^verbatim>\<open>.jpg\<close> in the image directory; when that file does not exist the
  annotation file is skipped without exception and the run goes on.
\<close>

theorem stem_without_underscore_looks_up_dot_jpg:
  assumes "CHR ''_'' \<notin> set (path_stem file)"
    and "\<not> exists_file e (joinpath image_dir ''.jpg'')"
  shows "image_name_of (path_stem file) = [] \<and>
         image_file_of (path_stem file) image_dir = joinpath image_dir ''.jpg'' \<and>
         get_image e (path_stem file) image_dir = None \<and>
         process_file e image_dir results_dir file st = (None, st) \<and>
         run e image_dir results_dir (file # rest) st = run e image_dir results_dir rest st"
  using assms
  by (simp add: image_name_of_no_underscore image_file_of_def get_image_def process_file_def Let_def)

theorem stem_without_underscore_looks_up_dot_jpg_witness:
  "image_name_of (path_stem (example_file ''notes.txt'')) = [] \<and>
   image_file_of (path_stem (example_file ''notes.txt'')) [''data''] = joinpath [''data''] ''.jpg'' \<and>
   get_image example_env (path_stem (example_file ''notes.txt'')) [''data''] = None \<and>
   process_file example_env [''data''] [''results''] (example_file ''notes.txt'') initial_state =
     (None, initial_state) \<and>
   run example_env [''data''] [''results'']
       (example_file ''notes.txt'' # [example_file ''img_04_pts.txt'']) initial_state =
     run example_env [''data''] [''results''] [example_file ''img_04_pts.txt''] initial_state"
proof -
  have h1: "CHR ''_'' \<notin> set (path_stem (example_file ''notes.txt''))"
    by (simp add: example_simps)
  have h2: "\<not> exists_file example_env (joinpath [''data''] ''.jpg'')"
    by (simp add: example_simps)
  show ?thesis by (rule stem_without_underscore_looks_up_dot_jpg [OF h1 h2])
qed

end
